theory Spec2Isabelle
  imports Complex_Main
begin

section \<open>Data model of \<^verbatim>\<open>internal/entity/marker.go\<close>\<close>

text \<open>
  The \<^verbatim>\<open>float32\<close> coordinates are values of the type \<open>float32\<close> below, with NaN,
  the infinities and rounding. The \<^verbatim>\<open>float64\<close> distances and embeddings are modelled
  as \<open>real\<close>. \<^verbatim>\<open>uint\<close> ids are \<open>nat\<close>, \<^verbatim>\<open>int\<close> fields are \<open>int\<close>; the code only
  compares them. A \<^verbatim>\<open>*time.Time\<close> is a \<open>nat option\<close>. The bookkeeping columns
  \<^verbatim>\<open>CreatedAt\<close> and \<^verbatim>\<open>UpdatedAt\<close> are maintained by the storage library and are
  not part of the model.
\<close>

subsection \<open>\<^verbatim>\<open>float32\<close>\<close>

text \<open>
  A \<^verbatim>\<open>float32\<close> is a finite number, an infinity or NaN. The two zeros are one value:
  the code only compares and adds coordinates, and -0 equals 0. Every comparison with NaN
  is false.
\<close>

datatype float32 = Finite real | PlusInf | MinusInf | NaN

fun f32_lt :: "float32 \<Rightarrow> float32 \<Rightarrow> bool" where
  "f32_lt (Finite x) (Finite y) \<longleftrightarrow> x < y"
| "f32_lt (Finite x) PlusInf \<longleftrightarrow> True"
| "f32_lt MinusInf (Finite y) \<longleftrightarrow> True"
| "f32_lt MinusInf PlusInf \<longleftrightarrow> True"
| "f32_lt a b \<longleftrightarrow> False"

definition f32_gt :: "float32 \<Rightarrow> float32 \<Rightarrow> bool" where
  "f32_gt a b \<longleftrightarrow> f32_lt b a"

fun f32_eq :: "float32 \<Rightarrow> float32 \<Rightarrow> bool" where
  "f32_eq (Finite x) (Finite y) \<longleftrightarrow> x = y"
| "f32_eq PlusInf PlusInf \<longleftrightarrow> True"
| "f32_eq MinusInf MinusInf \<longleftrightarrow> True"
| "f32_eq a b \<longleftrightarrow> False"

text \<open>
  Rounding to binary32, to the nearest number and to the even one on a tie. \<open>binade a\<close> is
  the exponent \<open>k\<close> with \<open>2 powi k \<le> a < 2 powi (k + 1)\<close>, kept within -126 (below it
  the numbers are subnormal) and 127; the numbers of that binade are the multiples of
  \<open>2 powi (k - 23)\<close>. A result of \<open>2 powi 128\<close> or more is an infinity.
\<close>

definition round_even :: "real \<Rightarrow> int" where
  "round_even q =
     (if q - of_int \<lfloor>q\<rfloor> < 1 / 2 then \<lfloor>q\<rfloor>
      else if 1 / 2 < q - of_int \<lfloor>q\<rfloor> then \<lfloor>q\<rfloor> + 1
      else if even \<lfloor>q\<rfloor> then \<lfloor>q\<rfloor> else \<lfloor>q\<rfloor> + 1)"

fun binade_from :: "nat \<Rightarrow> int \<Rightarrow> real \<Rightarrow> int" where
  "binade_from 0 k a = k"
| "binade_from (Suc n) k a = (if 2 powi k \<le> a then k else binade_from n (k - 1) a)"

definition binade :: "real \<Rightarrow> int" where
  "binade a = binade_from 253 127 a"

definition round32 :: "real \<Rightarrow> float32" where
  "round32 x =
     (if x = 0 then Finite 0
      else if (2::real) powi 128
                \<le> of_int (round_even (\<bar>x\<bar> / 2 powi (binade \<bar>x\<bar> - 23))) * 2 powi (binade \<bar>x\<bar> - 23)
      then (if x < 0 then MinusInf else PlusInf)
      else Finite (sgn x * (of_int (round_even (\<bar>x\<bar> / 2 powi (binade \<bar>x\<bar> - 23)))
                              * 2 powi (binade \<bar>x\<bar> - 23))))"

fun f32_neg :: "float32 \<Rightarrow> float32" where
  "f32_neg (Finite x) = Finite (- x)"
| "f32_neg PlusInf = MinusInf"
| "f32_neg MinusInf = PlusInf"
| "f32_neg NaN = NaN"

fun f32_add :: "float32 \<Rightarrow> float32 \<Rightarrow> float32" where
  "f32_add (Finite x) (Finite y) = round32 (x + y)"
| "f32_add NaN b = NaN"
| "f32_add a NaN = NaN"
| "f32_add PlusInf MinusInf = NaN"
| "f32_add MinusInf PlusInf = NaN"
| "f32_add PlusInf b = PlusInf"
| "f32_add a PlusInf = PlusInf"
| "f32_add MinusInf b = MinusInf"
| "f32_add a MinusInf = MinusInf"

definition f32_sub :: "float32 \<Rightarrow> float32 \<Rightarrow> float32" where
  "f32_sub a b = f32_add a (f32_neg b)"

subsection \<open>Structs\<close>

type_synonym embedding = "real list"
type_synonym embeddings = "embedding list"

text \<open>
  Go errors, tagged by where they are made: \<open>Errorf\<close> for the \<^verbatim>\<open>fmt.Errorf\<close> calls of
  this file, \<open>StorageError\<close> for an error reported by the database, \<open>CollaboratorError\<close>
  for an error returned by the collision reporter or the subject store.
\<close>

datatype error = Errorf string | StorageError string | CollaboratorError string

fun error_msg :: "error \<Rightarrow> string" where
  "error_msg (Errorf s) = s"
| "error_msg (StorageError s) = s"
| "error_msg (CollaboratorError s) = s"

text \<open>The fields of \<^verbatim>\<open>Subject\<close> and \<^verbatim>\<open>Face\<close> that this file reads or writes.\<close>

record subject =
  Subj_UID :: string
  SubjectName :: string

record face =
  Face_ID :: string
  Face_SubjectUID :: string
  Face_Embedding :: embedding

record marker =
  ID :: nat
  FileID :: nat
  MarkerType :: string
  MarkerSrc :: string
  MarkerName :: string
  SubjectUID :: string
  SubjectSrc :: string
  Subject :: "subject option"
  FaceID :: string
  FaceDist :: real
  Face :: "face option"
  EmbeddingsJSON :: string
  embeddings :: embeddings
  LandmarksJSON :: string
  X :: float32
  Y :: float32
  W :: float32
  H :: float32
  Size :: int
  Score :: int
  MarkerInvalid :: bool
  MatchedAt :: "nat option"

definition MarkerUnknown :: string where "MarkerUnknown = ''''"
definition MarkerFace :: string where "MarkerFace = ''face''"
definition MarkerLabel :: string where "MarkerLabel = ''label''"

text \<open>
  Modelled from the spec: the provenance tags \<^verbatim>\<open>SrcDefault\<close>, \<^verbatim>\<open>SrcAuto\<close>,
  \<^verbatim>\<open>SrcImage\<close>, \<^verbatim>\<open>SrcManual\<close> and \<^verbatim>\<open>SrcMarker\<close>, whose declarations are not in
  this file. The spec names them as distinct tags (default, automatic, detector-image,
  manual); only their distinctness is used below.
\<close>

definition SrcAuto :: string where "SrcAuto = ''''"
definition SrcDefault :: string where "SrcDefault = ''default''"
definition SrcImage :: string where "SrcImage = ''image''"
definition SrcManual :: string where "SrcManual = ''manual''"
definition SrcMarker :: string where "SrcMarker = ''marker''"

subsection \<open>The world: database tables, the collision log, the clock\<close>

text \<open>
  \<open>markers\<close>, \<open>faces\<close> and \<open>subjects\<close> are the database tables. \<open>collisions\<close> logs every
  call of \<^verbatim>\<open>Face.ReportCollision\<close> (the face and the embeddings it was given), \<open>ops\<close>
  counts the write statements sent to the database, \<open>clock\<close> is the time that
  \<^verbatim>\<open>TimePointer()\<close> reads.
\<close>

record world =
  markers :: "marker list"
  faces :: "face list"
  subjects :: "subject list"
  collisions :: "(face \<times> embeddings) list"
  ops :: nat
  clock :: nat

text \<open>
  The collaborators whose code is not in this file are parameters, collected in one
  record: the outcome of the n-th database write (\<open>StorageErr\<close>), the collision reporter,
  the JSON decoder of embeddings, the priority table, the subject store, the face store
  and the text helpers used by \<^verbatim>\<open>SaveForm\<close>.
\<close>

record env =
  StorageErr :: "nat \<Rightarrow> string option"
  ReportCollision :: "face \<Rightarrow> embeddings \<Rightarrow> error + bool"
  Unmarshal :: "string \<Rightarrow> embeddings"
  SrcPriority :: "string \<Rightarrow> int"
  FindSubject :: "subject list \<Rightarrow> string \<Rightarrow> subject option"
  NewSubject :: "string \<Rightarrow> subject option"
  FirstOrCreateSubject :: "subject \<Rightarrow> subject list \<Rightarrow> subject option \<times> subject list"
  UpdateName :: "subject \<Rightarrow> string \<Rightarrow> subject list \<Rightarrow> error option \<times> subject \<times> subject list"
  FindFace :: "face list \<Rightarrow> string \<Rightarrow> face option"
  NewFace :: "string \<Rightarrow> string \<Rightarrow> embeddings \<Rightarrow> face option"
  MatchMarkers :: "face \<Rightarrow> world \<Rightarrow> error option \<times> world"
  ClusterMinSize :: int
  ClusterMinScore :: int
  TrimSpace :: "string \<Rightarrow> string"
  Title :: "string \<Rightarrow> string"
  Clip :: "string \<Rightarrow> int \<Rightarrow> string"
  ClipDefault :: int

definition TimePointer :: "world \<Rightarrow> nat option" where
  "TimePointer w = Some (clock w)"

subsection \<open>Storage operations\<close>

text \<open>
  A write statement either fails with the error the storage reports, changing no table,
  or takes effect. Either way it has been sent, which \<open>ops\<close> records. Reads do not fail:
  a read returns the row or finds none.
\<close>

definition storage_write :: "env \<Rightarrow> (world \<Rightarrow> world) \<Rightarrow> world \<Rightarrow> error option \<times> world" where
  "storage_write e upd w =
     (case StorageErr e (ops w) of
        Some msg \<Rightarrow> (Some (StorageError msg), w\<lparr>ops := Suc (ops w)\<rparr>)
      | None \<Rightarrow> (None, (upd w)\<lparr>ops := Suc (ops w)\<rparr>))"

text \<open>A stored row holds the columns only: the cached references are not persisted.\<close>

definition row_of :: "marker \<Rightarrow> marker" where
  "row_of m = m\<lparr>Subject := None, Face := None, embeddings := []\<rparr>"

text \<open>The \<^verbatim>\<open>Values\<close> map of a partial update: one constructor per column that is written.\<close>

datatype column =
    V_MarkerName string
  | V_FaceID string
  | V_FaceDist real
  | V_SubjectUID string
  | V_SubjectSrc string
  | V_MatchedAt "nat option"
  | V_X float32
  | V_Y float32
  | V_W float32
  | V_H float32
  | V_Score int
  | V_LandmarksJSON string
  | V_EmbeddingsJSON string

type_synonym Values = "column list"

fun set_column :: "column \<Rightarrow> marker \<Rightarrow> marker" where
  "set_column (V_MarkerName v) m = m\<lparr>MarkerName := v\<rparr>"
| "set_column (V_FaceID v) m = m\<lparr>FaceID := v\<rparr>"
| "set_column (V_FaceDist v) m = m\<lparr>FaceDist := v\<rparr>"
| "set_column (V_SubjectUID v) m = m\<lparr>SubjectUID := v\<rparr>"
| "set_column (V_SubjectSrc v) m = m\<lparr>SubjectSrc := v\<rparr>"
| "set_column (V_MatchedAt v) m = m\<lparr>MatchedAt := v\<rparr>"
| "set_column (V_X v) m = m\<lparr>X := v\<rparr>"
| "set_column (V_Y v) m = m\<lparr>Y := v\<rparr>"
| "set_column (V_W v) m = m\<lparr>W := v\<rparr>"
| "set_column (V_H v) m = m\<lparr>H := v\<rparr>"
| "set_column (V_Score v) m = m\<lparr>Score := v\<rparr>"
| "set_column (V_LandmarksJSON v) m = m\<lparr>LandmarksJSON := v\<rparr>"
| "set_column (V_EmbeddingsJSON v) m = m\<lparr>EmbeddingsJSON := v\<rparr>"

definition assign :: "Values \<Rightarrow> marker \<Rightarrow> marker" where
  "assign values m = fold set_column values m"

text \<open>
  The update statement that the storage library sends for a struct: its key condition is
  the struct's id, and for a struct without id (id 0) the statement has no key condition
  and reaches every row of the table.
\<close>

definition update_rows :: "nat \<Rightarrow> Values \<Rightarrow> world \<Rightarrow> world" where
  "update_rows i values w =
     w\<lparr>markers := map (\<lambda>r. if i = 0 \<or> ID r = i then assign values r else r) (markers w)\<rparr>"

text \<open>
  \<^verbatim>\<open>Updates\<close> (l.91) and \<^verbatim>\<open>UpdateColumns\<close> (l.417): the storage library assigns the
  values to the fields of the struct it is given, then sends the update of these columns.
\<close>

definition Updates :: "env \<Rightarrow> Values \<Rightarrow> marker \<Rightarrow> world \<Rightarrow> error option \<times> marker \<times> world" where
  "Updates e values m w =
     (case storage_write e (update_rows (ID m) values) w of
        (err, w') \<Rightarrow> (err, assign values m, w'))"

text \<open>
  \<^verbatim>\<open>Db().Create(m)\<close>: an insert. A marker without id gets the next id of the table; an
  id that is already taken violates the primary key. The columns \<^verbatim>\<open>FaceDist\<close> and
  \<^verbatim>\<open>Size\<close> are tagged \<^verbatim>\<open>default:-1\<close> (l.33, l.42): the library leaves a zero value out
  of the insert, the table stores the default, and the library reads it back into the
  struct. The other tagged columns have the zero value as their default.
\<close>

definition fresh_id :: "marker list \<Rightarrow> nat" where
  "fresh_id rows = Suc (fold max (map ID rows) 0)"

definition with_defaults :: "marker \<Rightarrow> marker" where
  "with_defaults m =
     m\<lparr>FaceDist := (if FaceDist m = 0 then -1 else FaceDist m),
       Size := (if Size m = 0 then -1 else Size m)\<rparr>"

definition insert_row :: "marker \<Rightarrow> world \<Rightarrow> world" where
  "insert_row m w = w\<lparr>markers := markers w @ [row_of m]\<rparr>"

definition Db_Create :: "env \<Rightarrow> marker \<Rightarrow> world \<Rightarrow> error option \<times> marker \<times> world" where
  "Db_Create e m w =
     (let m' = with_defaults (if ID m = 0 then m\<lparr>ID := fresh_id (markers w)\<rparr> else m) in
      if ID m' \<in> set (map ID (markers w))
      then (Some (StorageError ''duplicate entry''), m, w\<lparr>ops := Suc (ops w)\<rparr>)
      else (case storage_write e (insert_row m') w of
              (Some err, w') \<Rightarrow> (Some err, m, w')
            | (None, w') \<Rightarrow> (None, m', w')))"

text \<open>
  \<^verbatim>\<open>Db().Save(m)\<close>: without id an insert. With an id the library sends an update of every
  column of that row; when the update reaches no row, it looks the id up and, finding
  none, sends the insert.
\<close>

definition replace_row :: "marker \<Rightarrow> world \<Rightarrow> world" where
  "replace_row m w =
     w\<lparr>markers := map (\<lambda>r. if ID r = ID m then row_of m else r) (markers w)\<rparr>"

definition Db_Save :: "env \<Rightarrow> marker \<Rightarrow> world \<Rightarrow> error option \<times> marker \<times> world" where
  "Db_Save e m w =
     (if ID m = 0 then Db_Create e m w
      else (case storage_write e (replace_row m) w of
              (Some err, w1) \<Rightarrow> (Some err, m, w1)
            | (None, w1) \<Rightarrow>
                if ID m \<in> set (map ID (markers w)) then (None, m, w1)
                else Db_Create e m w1))"

section \<open>Operations\<close>

subsection \<open>\<^verbatim>\<open>Save\<close> (l.280) and \<^verbatim>\<open>Create\<close> (l.289)\<close>

definition Save :: "env \<Rightarrow> marker \<Rightarrow> world \<Rightarrow> error option \<times> marker \<times> world" where
  "Save e m w =
     (if f32_eq (X m) (Finite 0) \<or> f32_eq (Y m) (Finite 0) \<or> f32_gt (X m) (Finite 1)
         \<or> f32_gt (Y m) (Finite 1) \<or> f32_lt (X m) (Finite (-1)) \<or> f32_lt (Y m) (Finite (-1))
      then (Some (Errorf ''marker: invalid position''), m, w)
      else Db_Save e m w)"

definition Create :: "env \<Rightarrow> marker \<Rightarrow> world \<Rightarrow> error option \<times> marker \<times> world" where
  "Create e m w =
     (if f32_eq (X m) (Finite 0) \<or> f32_eq (Y m) (Finite 0) \<or> f32_gt (X m) (Finite 1)
         \<or> f32_gt (Y m) (Finite 1) \<or> f32_lt (X m) (Finite (-1)) \<or> f32_lt (Y m) (Finite (-1))
      then (Some (Errorf ''marker: invalid position''), m, w)
      else Db_Create e m w)"

subsection \<open>\<^verbatim>\<open>NewMarker\<close> (l.59) and \<^verbatim>\<open>NewFaceMarker\<close> (l.75)\<close>

text \<open>The zero value of the struct: every field that a constructor does not set.\<close>

definition zero_marker :: marker where
  "zero_marker =
     \<lparr>ID = 0, FileID = 0, MarkerType = '''', MarkerSrc = '''', MarkerName = '''',
      SubjectUID = '''', SubjectSrc = '''', Subject = None, FaceID = '''', FaceDist = 0,
      Face = None, EmbeddingsJSON = '''', embeddings = [], LandmarksJSON = '''',
      X = Finite 0, Y = Finite 0, W = Finite 0, H = Finite 0, Size = 0, Score = 0,
      MarkerInvalid = False,
      MatchedAt = None\<rparr>"

definition NewMarker ::
  "nat \<Rightarrow> string \<Rightarrow> string \<Rightarrow> string \<Rightarrow> float32 \<Rightarrow> float32 \<Rightarrow> float32 \<Rightarrow> float32 \<Rightarrow> marker" where
  "NewMarker fileID subjectUID markerSrc markerType x y w h =
     zero_marker\<lparr>FileID := fileID, SubjectUID := subjectUID, MarkerSrc := markerSrc,
       MarkerType := markerType, X := x, Y := y, W := w, H := h\<rparr>"

text \<open>
  What \<^verbatim>\<open>NewFaceMarker\<close> reads from a detected \<^verbatim>\<open>face.Face\<close>: the position
  (\<^verbatim>\<open>f.Marker()\<close>), the serialised embeddings and landmarks, the size and the score.
\<close>

record detection =
  PosX :: float32
  PosY :: float32
  PosW :: float32
  PosH :: float32
  DetEmbeddingsJSON :: string
  DetRelativeLandmarksJSON :: string
  DetSize :: int
  DetScore :: int

definition NewFaceMarker :: "detection \<Rightarrow> nat \<Rightarrow> string \<Rightarrow> marker" where
  "NewFaceMarker f fileID refUID =
     (NewMarker fileID refUID SrcImage MarkerFace (PosX f) (PosY f) (PosW f) (PosH f))
       \<lparr>MatchedAt := None, FaceDist := -1, EmbeddingsJSON := DetEmbeddingsJSON f,
        LandmarksJSON := DetRelativeLandmarksJSON f, Size := DetSize f, Score := DetScore f\<rparr>"

subsection \<open>\<^verbatim>\<open>Embeddings\<close> (l.298)\<close>

text \<open>
  The parsed embeddings are cached in the struct. A decoding error is only logged;
  \<open>Unmarshal\<close> is what the decoder leaves in the (empty) cache.
\<close>

definition Embeddings :: "env \<Rightarrow> marker \<Rightarrow> embeddings \<times> marker" where
  "Embeddings e m =
     (if length (EmbeddingsJSON m) = 0 then ([], m)
      else if length (embeddings m) > 0 then (embeddings m, m)
      else (Unmarshal e (EmbeddingsJSON m), m\<lparr>embeddings := Unmarshal e (EmbeddingsJSON m)\<rparr>))"

subsection \<open>Methods of \<^verbatim>\<open>Face\<close> called from this file\<close>

text \<open>
  \<^verbatim>\<open>f.ReportCollision(embeddings)\<close>: the call is logged, its result is the
  collaborator's.
\<close>

definition report_collision :: "env \<Rightarrow> face \<Rightarrow> embeddings \<Rightarrow> world \<Rightarrow> (error + bool) \<times> world" where
  "report_collision e f embs w =
     (ReportCollision e f embs, w\<lparr>collisions := collisions w @ [(f, embs)]\<rparr>)"

text \<open>
  Modelled from the spec: \<^verbatim>\<open>Face.Update\<close> and \<^verbatim>\<open>Face.Create\<close>, which are not in this
  file; the storage contract is a partial-column update of the row with the struct's id,
  and an insert.
\<close>

definition Face_Update_SubjectUID :: "env \<Rightarrow> string \<Rightarrow> face \<Rightarrow> world \<Rightarrow> error option \<times> face \<times> world" where
  "Face_Update_SubjectUID e v f w =
     (case storage_write e
        (\<lambda>w. w\<lparr>faces := map (\<lambda>r. if Face_ID r = Face_ID f then r\<lparr>Face_SubjectUID := v\<rparr> else r) (faces w)\<rparr>) w of
        (err, w') \<Rightarrow> (err, f\<lparr>Face_SubjectUID := v\<rparr>, w'))"

definition Face_Create :: "env \<Rightarrow> face \<Rightarrow> world \<Rightarrow> error option \<times> world" where
  "Face_Create e f w = storage_write e (\<lambda>w. w\<lparr>faces := faces w @ [f]\<rparr>) w"

text \<open>
  Modelled from the spec: \<^verbatim>\<open>clusters.EuclideanDistance\<close>, which is not in this file:
  the Euclidean distance of two vectors of the same length.
\<close>

definition EuclideanDistance :: "embedding \<Rightarrow> embedding \<Rightarrow> real" where
  "EuclideanDistance a b = sqrt (sum_list (map (\<lambda>(x, y). (x - y) * (x - y)) (zip a b)))"

subsection \<open>\<^verbatim>\<open>GetSubject\<close> (l.311) and \<^verbatim>\<open>GetFace\<close> (l.363)\<close>

definition GetSubject :: "env \<Rightarrow> marker \<Rightarrow> world \<Rightarrow> subject option \<times> marker \<times> world" where
  "GetSubject e m w =
     (case Subject m of
        Some s \<Rightarrow> (Some s, m, w)
      | None \<Rightarrow>
          if SubjectUID m = '''' \<and> MarkerName m \<noteq> '''' then
            (case NewSubject e (MarkerName m) of
               None \<Rightarrow> (None, m, w)
             | Some s0 \<Rightarrow>
                 (case FirstOrCreateSubject e s0 (subjects w) of
                    (None, ss) \<Rightarrow> (None, m, w\<lparr>subjects := ss\<rparr>)
                  | (Some s, ss) \<Rightarrow>
                      (Some s, m\<lparr>SubjectUID := Subj_UID s, SubjectSrc := SrcManual\<rparr>,
                       w\<lparr>subjects := ss\<rparr>)))
          else (FindSubject e (subjects w) (SubjectUID m),
                m\<lparr>Subject := FindSubject e (subjects w) (SubjectUID m)\<rparr>, w))"

definition GetFace :: "env \<Rightarrow> marker \<Rightarrow> world \<Rightarrow> face option \<times> marker \<times> world" where
  "GetFace e m w =
     (case Face m of
        Some f \<Rightarrow> (Some f, m, w)
      | None \<Rightarrow>
          if FaceID m = '''' \<and> SubjectSrc m = SrcManual then
            (if Size m < ClusterMinSize e \<or> Score m < ClusterMinScore e then (None, m, w)
             else (case Embeddings e m of
               (embs, m1) \<Rightarrow>
                 (case NewFace e (SubjectUID m1) SrcManual embs of
                    None \<Rightarrow> (None, m1, w)
                  | Some f \<Rightarrow>
                      (case Face_Create e f w of
                         (Some err, w1) \<Rightarrow> (None, m1, w1)
                       | (None, w1) \<Rightarrow>
                           (Some f, m1\<lparr>Face := Some f, FaceID := Face_ID f\<rparr>,
                            snd (MatchMarkers e f w1))))))
          else (FindFace e (faces w) (FaceID m),
                m\<lparr>Face := FindFace e (faces w) (FaceID m)\<rparr>, w))"

subsection \<open>\<^verbatim>\<open>SyncSubject\<close> (l.232)\<close>

text \<open>
  l.244: the rename. \<open>subj\<close> is the pointer that \<^verbatim>\<open>GetSubject\<close> returned; when the marker
  caches a subject it is that same object, so the cache sees the new name.
\<close>

definition sync_name :: "env \<Rightarrow> subject \<Rightarrow> marker \<Rightarrow> world \<Rightarrow> error option \<times> marker \<times> world" where
  "sync_name e subj m w =
     (if MarkerName m = '''' \<or> SubjectName subj = MarkerName m
         \<or> (SubjectName subj \<noteq> '''' \<and> SubjectSrc m \<noteq> SrcManual)
      then (None, m, w)
      else (case UpdateName e subj (MarkerName m) (subjects w) of
              (err, subj', ss) \<Rightarrow>
                (err, (if Subject m = None then m else m\<lparr>Subject := Some subj'\<rparr>),
                 w\<lparr>subjects := ss\<rparr>)))"

text \<open>l.251: create a known face for the subject.\<close>

definition sync_face :: "env \<Rightarrow> marker \<Rightarrow> world \<Rightarrow> marker \<times> world" where
  "sync_face e m w =
     (if FaceID m \<noteq> '''' \<or> SubjectSrc m \<noteq> SrcManual then (m, w)
      else (case GetFace e m w of
              (Some f, m', w') \<Rightarrow> (m'\<lparr>FaceID := Face_ID f\<rparr>, w')
            | (None, m', w') \<Rightarrow> (m', w')))"

text \<open>l.258: the two conditional bulk updates, on the faces and on the other markers.\<close>

definition update_known_face :: "marker \<Rightarrow> world \<Rightarrow> world" where
  "update_known_face m w =
     w\<lparr>faces := map (\<lambda>f. if Face_ID f = FaceID m \<and> Face_SubjectUID f = ''''
                          then f\<lparr>Face_SubjectUID := SubjectUID m\<rparr> else f) (faces w)\<rparr>"

definition update_related_markers :: "marker \<Rightarrow> world \<Rightarrow> world" where
  "update_related_markers m w =
     w\<lparr>markers := map (\<lambda>r. if ID r \<noteq> ID m \<and> FaceID r = FaceID m \<and> SubjectSrc r = SrcAuto
                               \<and> SubjectUID r \<noteq> SubjectUID m
                            then r\<lparr>SubjectUID := SubjectUID m, SubjectSrc := SrcAuto\<rparr> else r)
                      (markers w)\<rparr>"

definition sync_related :: "env \<Rightarrow> bool \<Rightarrow> marker \<Rightarrow> world \<Rightarrow> error option \<times> marker \<times> world" where
  "sync_related e updateRelated m w =
     (if FaceID m = '''' \<or> SubjectUID m = '''' then (None, m, w)
      else (case storage_write e (update_known_face m) w of
              (Some err, w1) \<Rightarrow> (Some (Errorf (error_msg err @ '' (update known face)'')), m, w1)
            | (None, w1) \<Rightarrow>
                if \<not> updateRelated then (None, m, w1)
                else (case storage_write e (update_related_markers m) w1 of
                        (Some err, w2) \<Rightarrow>
                          (Some (Errorf (error_msg err @ '' (update related markers)'')), m, w2)
                      | (None, w2) \<Rightarrow> (None, m, w2))))"

definition SyncSubject :: "env \<Rightarrow> bool \<Rightarrow> marker \<Rightarrow> world \<Rightarrow> error option \<times> marker \<times> world" where
  "SyncSubject e updateRelated m w =
     (if MarkerType m \<noteq> MarkerFace then (None, m, w)
      else (case GetSubject e m w of
              (None, m1, w1) \<Rightarrow> (None, m1, w1)
            | (Some subj, m1, w1) \<Rightarrow>
                (case sync_name e subj m1 w1 of
                   (Some err, m2, w2) \<Rightarrow> (Some err, m2, w2)
                 | (None, m2, w2) \<Rightarrow>
                     (case sync_face e m2 w2 of
                        (m3, w3) \<Rightarrow> sync_related e updateRelated m3 w3))))"

subsection \<open>\<^verbatim>\<open>SaveForm\<close> (l.101)\<close>

text \<open>The fields of \<^verbatim>\<open>form.Marker\<close> that \<^verbatim>\<open>SaveForm\<close> reads.\<close>

record form_Marker =
  Form_MarkerInvalid :: bool
  Form_SubjectSrc :: string
  Form_MarkerName :: string

text \<open>l.104 to l.112: the two updates before the subject is looked at, with \<open>changed\<close>.\<close>

definition form_flags :: "form_Marker \<Rightarrow> marker \<Rightarrow> bool \<times> marker" where
  "form_flags f m =
     (let (changed, m1) =
            (if MarkerInvalid m \<noteq> Form_MarkerInvalid f
             then (True, m\<lparr>MarkerInvalid := Form_MarkerInvalid f\<rparr>) else (False, m))
      in if \<not> MarkerInvalid m1 \<and> Score m1 < 100 then (True, m1\<lparr>Score := 100\<rparr>)
         else (changed, m1))"

definition SaveForm :: "env \<Rightarrow> form_Marker \<Rightarrow> marker \<Rightarrow> world \<Rightarrow> error option \<times> marker \<times> world" where
  "SaveForm e f m w =
     (case form_flags f m of
        (changed, m2) \<Rightarrow>
          if Form_SubjectSrc f = SrcManual \<and> TrimSpace e (Form_MarkerName f) \<noteq> '''' then
            (case SyncSubject e True
                    (m2\<lparr>SubjectSrc := SrcManual,
                        MarkerName := Title e (Clip e (Form_MarkerName f) (ClipDefault e))\<rparr>) w of
               (Some err, m4, w4) \<Rightarrow> (Some err, m4, w4)
             | (None, m4, w4) \<Rightarrow> Save e m4 w4)
          else if changed then Save e m2 w
          else (None, m2, w))"

subsection \<open>\<^verbatim>\<open>HasFace\<close> (l.133)\<close>

definition HasFace :: "marker \<Rightarrow> face option \<Rightarrow> real \<Rightarrow> bool" where
  "HasFace m fo distance =
     (if FaceID m = '''' then False
      else (case fo of
              None \<Rightarrow> FaceID m \<noteq> ''''
            | Some f \<Rightarrow>
                if FaceID m = Face_ID f then FaceID m \<noteq> ''''
                else if FaceDist m < 0 then False
                else if distance < 0 then True
                else FaceDist m \<le> distance))"

subsection \<open>\<^verbatim>\<open>SetFace\<close> (l.150)\<close>

text \<open>
  The loop of l.197: \<open>fd\<close> is \<^verbatim>\<open>m.FaceDist\<close>, \<open>fe\<close> the face's embedding; an embedding
  of another length is skipped.
\<close>

fun smallest_dist :: "embedding \<Rightarrow> embeddings \<Rightarrow> real \<Rightarrow> real" where
  "smallest_dist fe [] fd = fd"
| "smallest_dist fe (em # es) fd =
     (if length em \<noteq> length fe then smallest_dist fe es fd
      else if EuclideanDistance em fe < fd \<or> fd < 0
           then smallest_dist fe es (EuclideanDistance em fe)
           else smallest_dist fe es fd)"

text \<open>l.193 to l.206: the distance is computed when none was supplied.\<close>

definition compute_dist :: "env \<Rightarrow> face \<Rightarrow> marker \<Rightarrow> marker" where
  "compute_dist e f m =
     (if FaceDist m < 0
      then (case Embeddings e m of
              (embs, m') \<Rightarrow> m'\<lparr>FaceDist := smallest_dist (Face_Embedding f) embs (FaceDist m')\<rparr>)
      else m)"

text \<open>
  l.185 to l.228: the assignment proper. The result is \<open>(updated, err, m, f, w)\<close>: the
  two return values, then the marker and the face as the call leaves them in memory, then
  the world.
\<close>

definition SetFace_assign ::
  "env \<Rightarrow> marker \<Rightarrow> face \<Rightarrow> real \<Rightarrow> world \<Rightarrow> bool \<times> error option \<times> marker \<times> face option \<times> world" where
  "SetFace_assign e m f distance w =
     (let faceID = FaceID m; subjectUID = SubjectUID m; subjectSrc = SubjectSrc m;
          m2 = compute_dist e f (m\<lparr>FaceID := Face_ID f, FaceDist := distance\<rparr>);
          m3 = (if Face_SubjectUID f \<noteq> '''' then m2\<lparr>SubjectUID := Face_SubjectUID f\<rparr> else m2)
      in case SyncSubject e False m3 w of
           (Some err, m4, w4) \<Rightarrow> (False, Some err, m4, Some f, w4)
         | (None, m4, w4) \<Rightarrow>
             (case (if SubjectUID m4 = '''' \<or> Face_SubjectUID f \<noteq> SubjectUID m4
                    then (None, f, w4)
                    else Face_Update_SubjectUID e (SubjectUID m4) f w4) of
                (Some err, f5, w5) \<Rightarrow> (False, Some err, m4, Some f5, w5)
              | (None, f5, w5) \<Rightarrow>
                  (case Updates e
                          [V_FaceID (FaceID m4), V_FaceDist (FaceDist m4),
                           V_SubjectUID (SubjectUID m4), V_SubjectSrc (SubjectSrc m4),
                           V_MatchedAt (TimePointer w5)]
                          (m4\<lparr>MatchedAt := TimePointer w5\<rparr>) w5 of
                     (err, m7, w7) \<Rightarrow>
                       (FaceID m4 \<noteq> faceID \<or> SubjectUID m4 \<noteq> subjectUID
                          \<or> SubjectSrc m4 \<noteq> subjectSrc,
                        err, m7, Some f5, w7))))"

text \<open>l.171 to l.183: the face adopts the marker's subject; the same face is skipped.\<close>

definition SetFace_update ::
  "env \<Rightarrow> marker \<Rightarrow> face \<Rightarrow> real \<Rightarrow> world \<Rightarrow> bool \<times> error option \<times> marker \<times> face option \<times> world" where
  "SetFace_update e m f distance w =
     (case (if Face_SubjectUID f \<noteq> '''' \<or> SubjectUID m = '''' then (None, f, w)
            else Face_Update_SubjectUID e (SubjectUID m) f w) of
        (Some err, f1, w1) \<Rightarrow> (False, Some err, m, Some f1, w1)
      | (None, f1, w1) \<Rightarrow>
          if SubjectUID m = Face_SubjectUID f1 \<and> FaceID m = Face_ID f1
          then (case Updates e [V_MatchedAt (TimePointer w1)] (m\<lparr>MatchedAt := TimePointer w1\<rparr>) w1 of
                  (err, m2, w2) \<Rightarrow> (False, err, m2, Some f1, w2))
          else SetFace_assign e m f1 distance w1)"

definition SetFace ::
  "env \<Rightarrow> marker \<Rightarrow> face option \<Rightarrow> real \<Rightarrow> world \<Rightarrow> bool \<times> error option \<times> marker \<times> face option \<times> world" where
  "SetFace e m fo distance w =
     (case fo of
        None \<Rightarrow> (False, Some (Errorf ''face is nil''), m, None, w)
      | Some f \<Rightarrow>
          if MarkerType m \<noteq> MarkerFace then (False, Some (Errorf ''not a face marker''), m, Some f, w)
          else if SubjectSrc m \<noteq> SrcManual \<or> Face_SubjectUID f = '''' \<or> SubjectUID m = ''''
                  \<or> Face_SubjectUID f = SubjectUID m
          then SetFace_update e m f distance w
          else (case Embeddings e m of
                  (embs, m1) \<Rightarrow>
                    (case report_collision e f embs w of
                       (Inl err, w1) \<Rightarrow> (False, Some err, m1, Some f, w1)
                     | (Inr reported, w1) \<Rightarrow>
                         if reported then (False, None, m1, Some f, w1)
                         else (False, None, m1, Some f, w1))))"

subsection \<open>\<^verbatim>\<open>ClearSubject\<close> (l.336)\<close>

text \<open>l.351 to l.357: the assignments to the struct at the end of \<^verbatim>\<open>ClearSubject\<close>.\<close>

definition clear_fields :: "string \<Rightarrow> marker \<Rightarrow> marker" where
  "clear_fields src m =
     m\<lparr>Face := None, MarkerName := '''', FaceID := '''', FaceDist := -1, SubjectUID := '''',
       SubjectSrc := src\<rparr>"

definition ClearSubject :: "env \<Rightarrow> string \<Rightarrow> marker \<Rightarrow> world \<Rightarrow> error option \<times> marker \<times> world" where
  "ClearSubject e src m w =
     (let m1 = (if Face m = None then m\<lparr>Face := FindFace e (faces w) (FaceID m)\<rparr> else m)
      in case Face m1 of
           None \<Rightarrow> (None, clear_fields src m1, w)
         | Some f \<Rightarrow>
             (case Embeddings e m1 of
                (embs, m2) \<Rightarrow>
                  (case report_collision e f embs w of
                     (Inl err, w1) \<Rightarrow> (Some err, m2, w1)
                   | (Inr reported, w1) \<Rightarrow>
                       (case Updates e
                               [V_MarkerName '''', V_FaceID '''', V_FaceDist (-1),
                                V_SubjectUID '''', V_SubjectSrc src] m2 w1 of
                          (Some err, m3, w3) \<Rightarrow> (Some err, m3, w3)
                        | (None, m3, w3) \<Rightarrow> (None, clear_fields src m3, w3)))))"

subsection \<open>\<^verbatim>\<open>Matched\<close> (l.415) and \<^verbatim>\<open>ClearFace\<close> (l.391)\<close>

definition Matched :: "env \<Rightarrow> marker \<Rightarrow> world \<Rightarrow> error option \<times> marker \<times> world" where
  "Matched e m w = Updates e [V_MatchedAt (TimePointer w)] (m\<lparr>MatchedAt := TimePointer w\<rparr>) w"

definition ClearFace :: "env \<Rightarrow> marker \<Rightarrow> world \<Rightarrow> bool \<times> error option \<times> marker \<times> world" where
  "ClearFace e m w =
     (if FaceID m = '''' then (case Matched e m w of (err, m', w') \<Rightarrow> (False, err, m', w'))
      else (let m1 = m\<lparr>Face := None, FaceID := '''', MatchedAt := TimePointer w\<rparr>
            in if SubjectSrc m1 = SrcAuto
               then (case Updates e
                            [V_FaceID '''', V_FaceDist (-1), V_SubjectUID '''',
                             V_MatchedAt (MatchedAt m1)] (m1\<lparr>SubjectUID := ''''\<rparr>) w of
                       (err, m3, w3) \<Rightarrow> (True, err, m3, w3))
               else (case Updates e
                            [V_FaceID '''', V_FaceDist (-1), V_MatchedAt (MatchedAt m1)] m1 w of
                       (err, m3, w3) \<Rightarrow> (True, err, m3, w3))))"

subsection \<open>\<^verbatim>\<open>FindMarker\<close> (l.421) and \<^verbatim>\<open>UpdateOrCreateMarker\<close> (l.432)\<close>

text \<open>
  The rows that a query reads. The primary key of a stored row is not 0: the table assigns
  the ids from 1, and the library takes a struct with id 0 to have no row.
\<close>

definition stored_rows :: "world \<Rightarrow> marker list" where
  "stored_rows w = filter (\<lambda>r. ID r \<noteq> 0) (markers w)"

definition FindMarker :: "nat \<Rightarrow> world \<Rightarrow> marker option" where
  "FindMarker i w = find (\<lambda>r. ID r = i) (sort_key ID (stored_rows w))"

text \<open>
  The query of l.441: the first row, in the order of the ids, of the same file whose
  centre is strictly between the bounds on both axes. \<open>d\<close> is the untyped constant 0.07;
  in \<^verbatim>\<open>m.X-d\<close> and \<^verbatim>\<open>m.X+d\<close> it is converted to \<^verbatim>\<open>float32\<close> and the difference and
  the sum are \<^verbatim>\<open>float32\<close> operations, so the bounds are rounded.
\<close>

definition near :: "marker \<Rightarrow> real \<Rightarrow> marker \<Rightarrow> bool" where
  "near m d r \<longleftrightarrow>
     FileID r = FileID m
     \<and> f32_gt (X r) (f32_sub (X m) (round32 d)) \<and> f32_lt (X r) (f32_add (X m) (round32 d))
     \<and> f32_gt (Y r) (f32_sub (Y m) (round32 d)) \<and> f32_lt (Y r) (f32_add (Y m) (round32 d))"

definition first_near :: "marker \<Rightarrow> real \<Rightarrow> world \<Rightarrow> marker option" where
  "first_near m d w = find (near m d) (sort_key ID (stored_rows w))"

definition UpdateOrCreateMarker :: "env \<Rightarrow> marker \<Rightarrow> world \<Rightarrow> marker \<times> error option \<times> world" where
  "UpdateOrCreateMarker e m w =
     (let d = 7 / 100 in
      if ID m > 0 then (case Save e m w of (err, m', w') \<Rightarrow> (m', err, w'))
      else (case first_near m d w of
              Some result \<Rightarrow>
                if SrcPriority e (MarkerSrc m) < SrcPriority e (MarkerSrc result)
                then (result, None, w)
                else (case Updates e
                             [V_X (X m), V_Y (Y m), V_W (W m), V_H (H m), V_Score (Score m),
                              V_LandmarksJSON (LandmarksJSON m),
                              V_EmbeddingsJSON (EmbeddingsJSON m),
                              V_SubjectUID (SubjectUID m)] result w of
                        (err, result', w') \<Rightarrow> (result', err, w'))
            | None \<Rightarrow> (case Create e m w of (err, m', w') \<Rightarrow> (m', err, w'))))"

section \<open>Properties and example data\<close>

text \<open>
  The geometry that \<^verbatim>\<open>Save\<close> and \<^verbatim>\<open>Create\<close> must reject, in the words of the
  specification: a coordinate that is 0 or does not lie in [-1, 1]. An infinity and NaN do
  not lie in the interval.
\<close>

definition in_unit :: "float32 \<Rightarrow> bool" where
  "in_unit x \<longleftrightarrow> (case x of Finite v \<Rightarrow> -1 \<le> v \<and> v \<le> 1 | _ \<Rightarrow> False)"

definition outside_unit :: "float32 \<Rightarrow> bool" where
  "outside_unit x \<longleftrightarrow> (case x of Finite v \<Rightarrow> v < -1 \<or> 1 < v | _ \<Rightarrow> True)"

definition invalid_position :: "marker \<Rightarrow> bool" where
  "invalid_position m \<longleftrightarrow>
     X m = Finite 0 \<or> Y m = Finite 0 \<or> outside_unit (X m) \<or> outside_unit (Y m)"




text \<open>The outcome of one write statement: the error it returns, and the world after it.\<close>

definition write_err :: "env \<Rightarrow> world \<Rightarrow> error option" where
  "write_err e w = map_option StorageError (StorageErr e (ops w))"

definition written :: "env \<Rightarrow> (world \<Rightarrow> world) \<Rightarrow> world \<Rightarrow> world" where
  "written e upd w = (if StorageErr e (ops w) = None then upd w else w)\<lparr>ops := Suc (ops w)\<rparr>"

text \<open>The score invariant of the specification.\<close>

definition score_ok :: "marker \<Rightarrow> bool" where
  "score_ok m \<longleftrightarrow> MarkerInvalid m \<or> 100 \<le> Score m"

text \<open>
  The embeddings of a marker that have the length of the face's embedding, and the
  distances from them to it.
\<close>

definition matching :: "embedding \<Rightarrow> embeddings \<Rightarrow> embeddings" where
  "matching fe embs = filter (\<lambda>em. length em = length fe) embs"

definition min_dist :: "embedding \<Rightarrow> embeddings \<Rightarrow> real \<Rightarrow> real" where
  "min_dist fe embs d =
     (if matching fe embs = [] then d
      else Min (set (map (\<lambda>em. EuclideanDistance em fe) (matching fe embs))))"

text \<open>
  Whether \<^verbatim>\<open>SetFace\<close> reaches the assignment of l.185: no conflict is raised, the write
  that lets the face adopt the marker's subject (if it is made) succeeds, and the marker
  is not already matched to the face.
\<close>

definition no_conflict :: "marker \<Rightarrow> face \<Rightarrow> bool" where
  "no_conflict m f \<longleftrightarrow>
     SubjectSrc m \<noteq> SrcManual \<or> Face_SubjectUID f = '''' \<or> SubjectUID m = ''''
       \<or> Face_SubjectUID f = SubjectUID m"

definition adopts :: "marker \<Rightarrow> face \<Rightarrow> bool" where
  "adopts m f \<longleftrightarrow> Face_SubjectUID f = '''' \<and> SubjectUID m \<noteq> ''''"

definition already_matched :: "marker \<Rightarrow> face \<Rightarrow> bool" where
  "already_matched m f \<longleftrightarrow>
     FaceID m = Face_ID f \<and> (adopts m f \<or> SubjectUID m = Face_SubjectUID f)"

subsection \<open>Example collaborators, markers, faces and worlds\<close>

definition env0 :: env where
  "env0 =
     \<lparr>StorageErr = (\<lambda>n. None),
      ReportCollision = (\<lambda>f embs. Inr True),
      Unmarshal = (\<lambda>s. if s = ''[[1,0],[5],[0,0]]'' then [[1, 0], [5], [0, 0]] else []),
      SrcPriority = (\<lambda>s. if s = SrcManual then 64 else if s = SrcImage then 8 else 1),
      FindSubject = (\<lambda>ss uid. find (\<lambda>s. Subj_UID s = uid) ss),
      NewSubject = (\<lambda>n. Some \<lparr>Subj_UID = '''', SubjectName = n\<rparr>),
      FirstOrCreateSubject =
        (\<lambda>s ss. (find (\<lambda>t. SubjectName t = SubjectName s) ss, ss)),
      UpdateName =
        (\<lambda>s n ss. (None, s\<lparr>SubjectName := n\<rparr>,
                    map (\<lambda>t. if Subj_UID t = Subj_UID s then t\<lparr>SubjectName := n\<rparr> else t) ss)),
      FindFace = (\<lambda>fs i. find (\<lambda>f. Face_ID f = i) fs),
      NewFace = (\<lambda>uid src embs. None),
      MatchMarkers = (\<lambda>f w. (None, w)),
      ClusterMinSize = 80,
      ClusterMinScore = 15,
      TrimSpace = (\<lambda>s. s),
      Title = (\<lambda>s. s),
      Clip = (\<lambda>s n. take (nat n) s),
      ClipDefault = 160\<rparr>"

text \<open>A collision reporter that fails.\<close>

definition env_err :: env where
  "env_err = env0\<lparr>ReportCollision := (\<lambda>f embs. Inl (CollaboratorError ''report failed''))\<rparr>"

definition face_bob :: face where
  "face_bob = \<lparr>Face_ID = ''F1'', Face_SubjectUID = ''bob'', Face_Embedding = [0, 0]\<rparr>"

definition face_anon :: face where
  "face_anon = \<lparr>Face_ID = ''F2'', Face_SubjectUID = '''', Face_Embedding = [0, 0]\<rparr>"

text \<open>A face marker whose subject alice was set manually.\<close>

definition marker_alice :: marker where
  "marker_alice =
     zero_marker\<lparr>ID := 1, FileID := 1, MarkerType := MarkerFace, MarkerSrc := SrcImage,
       SubjectUID := ''alice'', SubjectSrc := SrcManual, FaceID := ''F2'', FaceDist := 1 / 2,
       EmbeddingsJSON := ''[[1,0],[5],[0,0]]'', X := Finite (1 / 2), Y := Finite (1 / 2), W := Finite (1 / 8),
       H := Finite (1 / 8), Size := 100, Score := 10\<rparr>"

text \<open>A face marker matched automatically to \<open>face_bob\<close>.\<close>

definition marker_bob :: marker where
  "marker_bob =
     zero_marker\<lparr>ID := 2, FileID := 2, MarkerType := MarkerFace, MarkerSrc := SrcImage,
       SubjectUID := ''bob'', SubjectSrc := SrcAuto, FaceID := ''F1'', FaceDist := 1 / 2,
       EmbeddingsJSON := ''[[1,0],[5],[0,0]]'', X := Finite (1 / 4), Y := Finite (1 / 4), W := Finite (1 / 8),
       H := Finite (1 / 8), Size := 100, Score := 10\<rparr>"

text \<open>A match of \<open>face_anon\<close> with no subject, and an unmatched marker of another file.\<close>

definition marker_anon :: marker where
  "marker_anon =
     zero_marker\<lparr>ID := 3, FileID := 3, MarkerType := MarkerFace, MarkerSrc := SrcImage,
       SubjectSrc := SrcAuto, FaceID := ''F2'', FaceDist := 1 / 2,
       EmbeddingsJSON := ''[[1,0],[5],[0,0]]'', X := Finite (1 / 4), Y := Finite (1 / 4), W := Finite (1 / 8),
       H := Finite (1 / 8), Size := 100, Score := 10\<rparr>"

definition marker_new :: marker where
  "marker_new =
     zero_marker\<lparr>ID := 4, FileID := 4, MarkerType := MarkerFace, MarkerSrc := SrcImage,
       SubjectSrc := SrcAuto, FaceDist := -1,
       EmbeddingsJSON := ''[[1,0],[5],[0,0]]'', X := Finite (1 / 4), Y := Finite (1 / 4), W := Finite (1 / 8),
       H := Finite (1 / 8), Size := 100, Score := 10\<rparr>"

definition world0 :: world where
  "world0 =
     \<lparr>markers = [marker_alice, marker_bob, marker_anon, marker_new],
      faces = [face_bob, face_anon],
      subjects = [\<lparr>Subj_UID = ''bob'', SubjectName = ''Bob''\<rparr>],
      collisions = [], ops = 0, clock = 7\<rparr>"

text \<open>A change of the stored rows with a given id, and of every stored row.\<close>

definition set_rows :: "nat \<Rightarrow> (marker \<Rightarrow> marker) \<Rightarrow> world \<Rightarrow> world" where
  "set_rows i g w = w\<lparr>markers := map (\<lambda>r. if ID r = i then g r else r) (markers w)\<rparr>"

definition set_all_rows :: "(marker \<Rightarrow> marker) \<Rightarrow> world \<Rightarrow> world" where
  "set_all_rows g w = w\<lparr>markers := map g (markers w)\<rparr>"

text \<open>The eight columns that the update of a near-duplicate writes, taken from the candidate.\<close>

definition overwrite :: "marker \<Rightarrow> marker \<Rightarrow> marker" where
  "overwrite m r =
     r\<lparr>X := X m, Y := Y m, W := W m, H := H m, Score := Score m,
       LandmarksJSON := LandmarksJSON m, EmbeddingsJSON := EmbeddingsJSON m,
       SubjectUID := SubjectUID m\<rparr>"

text \<open>The fields that the update of a near-duplicate must leave alone.\<close>

definition kept_fields ::
  "marker \<Rightarrow> string \<times> string \<times> string \<times> string \<times> string \<times> real \<times> int \<times> bool" where
  "kept_fields r =
     (MarkerSrc r, SubjectSrc r, MarkerType r, MarkerName r, FaceID r, FaceDist r, Size r,
      MarkerInvalid r)"

text \<open>
  Candidates without id: one next to \<open>marker_bob\<close> from a manual edit, the same from a
  source of low priority, one on a file without markers, and one at X = 0.
\<close>

definition cand_manual :: marker where
  "cand_manual =
     zero_marker\<lparr>FileID := 2, MarkerType := MarkerFace, MarkerSrc := SrcManual,
       SubjectUID := ''carol'', SubjectSrc := SrcManual, FaceDist := -1,
       X := Finite (5 / 16), Y := Finite (3 / 16), W := Finite (1 / 4), H := Finite (1 / 4),
       Size := 200, Score := 30\<rparr>"

definition cand_low :: marker where
  "cand_low = cand_manual\<lparr>MarkerSrc := SrcAuto\<rparr>"

definition cand_far :: marker where
  "cand_far = cand_manual\<lparr>FileID := 9\<rparr>"

definition cand_zero :: marker where
  "cand_zero = cand_manual\<lparr>FileID := 9, X := Finite 0\<rparr>"

text \<open>
  The fields that \<^verbatim>\<open>SyncSubject\<close> can assign are the subject and face links and the
  caches; \<open>sync_frame\<close> blanks them, leaving the fields it never writes.
\<close>

definition sync_frame :: "marker \<Rightarrow> marker" where
  "sync_frame m =
     m\<lparr>SubjectUID := '''', SubjectSrc := '''', Subject := None, FaceID := '''', Face := None,
       embeddings := []\<rparr>"

text \<open>Whether \<^verbatim>\<open>SaveForm\<close> reaches its \<^verbatim>\<open>Save\<close>: a flag changed or a name was given.\<close>

definition form_saves :: "env \<Rightarrow> form_Marker \<Rightarrow> marker \<Rightarrow> bool" where
  "form_saves e f m \<longleftrightarrow>
     fst (form_flags f m)
       \<or> (Form_SubjectSrc f = SrcManual \<and> TrimSpace e (Form_MarkerName f) \<noteq> '''')"

text \<open>A detection of low score, and a form that marks a marker as valid.\<close>

definition det_low :: detection where
  "det_low =
     \<lparr>PosX = Finite (1 / 2), PosY = Finite (1 / 2), PosW = Finite (1 / 8),
      PosH = Finite (1 / 8), DetEmbeddingsJSON = '''',
      DetRelativeLandmarksJSON = '''', DetSize = 50, DetScore = 10\<rparr>"

definition form_valid :: form_Marker where
  "form_valid = \<lparr>Form_MarkerInvalid = False, Form_SubjectSrc = '''', Form_MarkerName = ''''\<rparr>"

text \<open>A marker that was named by hand and has no face, alone in its table.\<close>

definition marker_named :: marker where
  "marker_named =
     zero_marker\<lparr>ID := 1, FileID := 1, MarkerType := MarkerFace, MarkerSrc := SrcImage,
       MarkerName := ''Alice'', SubjectUID := ''alice'', SubjectSrc := SrcManual,
       FaceDist := -1, X := Finite (1 / 2), Y := Finite (1 / 2), W := Finite (1 / 8),
       H := Finite (1 / 8), Size := 50,
       Score := 10\<rparr>"

definition world_named :: world where
  "world_named =
     \<lparr>markers = [marker_named], faces = [face_bob],
      subjects = [\<lparr>Subj_UID = ''alice'', SubjectName = ''Alice''\<rparr>],
      collisions = [], ops = 0, clock = 7\<rparr>"

text \<open>The marker of alice after a manual correction of its subject to bob.\<close>

definition marker_renamed :: marker where
  "marker_renamed = marker_alice\<lparr>SubjectUID := ''bob''\<rparr>"




definition cand_blank :: marker where
  "cand_blank = cand_manual\<lparr>FileID := 9, FaceDist := 0, Size := 0\<rparr>"

text \<open>Structs that were never stored: they have no id.\<close>

definition bob_unsaved :: marker where
  "bob_unsaved = marker_bob\<lparr>ID := 0\<rparr>"

definition new_unsaved :: marker where
  "new_unsaved = marker_new\<lparr>ID := 0\<rparr>"

text \<open>A stored marker whose X has become NaN, and a new one.\<close>

definition alice_nan :: marker where
  "alice_nan = marker_alice\<lparr>X := NaN\<rparr>"

definition cand_nan :: marker where
  "cand_nan = cand_manual\<lparr>FileID := 9, X := NaN\<rparr>"

section \<open>Rounding to \<^verbatim>\<open>float32\<close>\<close>

lemma binade_from_eq:
  "2 powi k \<le> a \<Longrightarrow> a < 2 powi (k + 1) \<Longrightarrow> k \<le> j \<Longrightarrow> nat (j - k) \<le> n \<Longrightarrow> binade_from n j a = k"
proof (induction n arbitrary: j)
  case 0
  then show ?case by simp
next
  case (Suc n)
  show ?case
  proof (cases "2 powi j \<le> a")
    case True
    with Suc.prems(2) have less: "(2::real) powi j < 2 powi (k + 1)" by linarith
    have "j < k + 1"
    proof (rule ccontr)
      assume "\<not> j < k + 1"
      then have "(2::real) powi (k + 1) \<le> 2 powi j" by (intro power_int_increasing) simp_all
      with less show False by linarith
    qed
    with Suc.prems(3) True show ?thesis by simp
  next
    case False
    with Suc.prems(1) have "j \<noteq> k" by auto
    with Suc.prems(3,4) have "k \<le> j - 1" and "nat (j - 1 - k) \<le> n" by linarith+
    with Suc.prems(1,2) False show ?thesis by (simp add: Suc.IH)
  qed
qed

lemma binade_eq:
  "2 powi k \<le> a \<Longrightarrow> a < 2 powi (k + 1) \<Longrightarrow> -126 \<le> k \<Longrightarrow> k \<le> 127 \<Longrightarrow> binade a = k"
  unfolding binade_def by (rule binade_from_eq) simp_all

text \<open>The \<^verbatim>\<open>float32\<close> nearest to 0.07 is 0.070000000298.\<close>

lemma round32_d: "round32 (7 / 100) = Finite (9395241 / 2 ^ 27)"
proof -
  have b: "binade (7 / 100) = -4" by (rule binade_eq) simp_all
  show ?thesis by (simp add: round32_def b round_even_def)
qed

section \<open>Storage lemmas\<close>

lemma storage_write_eq: "storage_write e upd w = (write_err e w, written e upd w)"
  by (simp add: storage_write_def write_err_def written_def split: option.splits)

lemma ops_written [simp]: "ops (written e upd w) = Suc (ops w)"
  by (simp add: written_def)

lemma write_err_None: "write_err e w = None \<longleftrightarrow> StorageErr e (ops w) = None"
  by (simp add: write_err_def)




lemma fresh_id_pos: "fresh_id rows \<noteq> 0"
  by (simp add: fresh_id_def)

lemma update_rows_keyed: "i \<noteq> 0 \<Longrightarrow> update_rows i values = set_rows i (assign values)"
  by (rule ext) (simp add: update_rows_def set_rows_def)

lemma update_rows_keyless: "update_rows 0 values = set_all_rows (assign values)"
  by (rule ext) (simp add: update_rows_def set_all_rows_def)

lemma Updates_eq:
  "Updates e values m w =
     (write_err e w, assign values m, written e (update_rows (ID m) values) w)"
  by (simp add: Updates_def storage_write_eq)

lemma Updates_keyed:
  "ID m \<noteq> 0 \<Longrightarrow>
   Updates e values m w =
     (write_err e w, assign values m, written e (set_rows (ID m) (assign values)) w)"
  by (simp add: Updates_eq update_rows_keyed)

lemma Updates_keyless:
  "ID m = 0 \<Longrightarrow>
   Updates e values m w =
     (write_err e w, assign values m, written e (set_all_rows (assign values)) w)"
  by (simp add: Updates_eq update_rows_keyless)

lemmas ex_defs = env0_def env_err_def face_bob_def face_anon_def marker_alice_def
  marker_bob_def marker_anon_def marker_new_def world0_def zero_marker_def MarkerFace_def
  SrcManual_def SrcAuto_def SrcImage_def

section \<open>Geometry validation\<close>

text \<open>
  For coordinates that are not NaN, the guard of \<^verbatim>\<open>Save\<close> and \<^verbatim>\<open>Create\<close> is the
  condition of the specification: the error is returned, with the marker and the world
  unchanged and nothing sent to the storage, exactly when X or Y is 0 or lies outside
  [-1, 1]; otherwise the marker is handed to the storage, which receives at least one
  write statement.
\<close>

lemma guard_invalid_position:
  assumes "X m \<noteq> NaN" and "Y m \<noteq> NaN"
  shows "(f32_eq (X m) (Finite 0) \<or> f32_eq (Y m) (Finite 0) \<or> f32_gt (X m) (Finite 1)
          \<or> f32_gt (Y m) (Finite 1) \<or> f32_lt (X m) (Finite (-1)) \<or> f32_lt (Y m) (Finite (-1)))
         \<longleftrightarrow> invalid_position m"
  using assms
  by (cases "X m"; cases "Y m") (auto simp: invalid_position_def outside_unit_def f32_gt_def)

lemma outside_unit_iff: "outside_unit x \<longleftrightarrow> \<not> in_unit x"
  by (cases x) (auto simp: outside_unit_def in_unit_def)

lemma Db_Create_ops: "ops w < ops (snd (snd (Db_Create e m w)))"
  by (simp add: Db_Create_def Let_def storage_write_eq write_err_def split: option.splits)

lemma Db_Save_ops: "ops w < ops (snd (snd (Db_Save e m w)))"
proof -
  have "ops (written e (replace_row m) w) < ops (snd (snd (Db_Create e m (written e (replace_row m) w))))"
    by (rule Db_Create_ops)
  then have "ops w < ops (snd (snd (Db_Create e m (written e (replace_row m) w))))"
    by simp
  then show ?thesis
    using Db_Create_ops[of w e m]
    by (simp add: Db_Save_def storage_write_eq write_err_def split: option.splits)
qed

lemma Db_Create_err: "fst (Db_Create e m w) \<noteq> Some (Errorf s)"
  by (auto simp: Db_Create_def Let_def storage_write_eq write_err_def split: option.splits)

lemma Db_Save_err: "fst (Db_Save e m w) \<noteq> Some (Errorf s)"
  using Db_Create_err[of e m "written e (replace_row m) w" s] Db_Create_err[of e m w s]
  by (auto simp: Db_Save_def storage_write_eq write_err_def split: option.splits)

lemma Save_Create_finite:
  assumes "X m \<noteq> NaN" and "Y m \<noteq> NaN"
  shows "(fst (Save e m w) = Some (Errorf ''marker: invalid position'') \<longleftrightarrow> invalid_position m)
   \<and> (fst (Create e m w) = Some (Errorf ''marker: invalid position'') \<longleftrightarrow> invalid_position m)
   \<and> (invalid_position m \<longrightarrow>
         Save e m w = (Some (Errorf ''marker: invalid position''), m, w)
       \<and> Create e m w = (Some (Errorf ''marker: invalid position''), m, w))
   \<and> (\<not> invalid_position m \<longrightarrow>
         Save e m w = Db_Save e m w \<and> ops w < ops (snd (snd (Save e m w)))
       \<and> Create e m w = Db_Create e m w \<and> ops w < ops (snd (snd (Create e m w))))"
  using Db_Save_err[of e m w "''marker: invalid position''"]
        Db_Create_err[of e m w "''marker: invalid position''"]
        guard_invalid_position[OF assms]
  by (simp add: Save_def Create_def Db_Save_ops Db_Create_ops)

text \<open>
  C3 at a failing input. The X of a stored marker is NaN, which is not in [-1, 1], and a
  new marker has X = NaN. Every comparison of the guard is false: the validation passes,
  \<^verbatim>\<open>Save\<close> writes the row with X = NaN, \<^verbatim>\<open>Create\<close> inserts the new marker, and neither
  returns an error.
\<close>

theorem Save_Create_accept_NaN:
  "invalid_position alice_nan \<and> \<not> in_unit (X alice_nan)
   \<and> Save env0 alice_nan world0 =
        (None, alice_nan,
         world0\<lparr>markers := [alice_nan, marker_bob, marker_anon, marker_new], ops := 1\<rparr>)
   \<and> invalid_position cand_nan \<and> \<not> in_unit (X cand_nan)
   \<and> Create env0 cand_nan world0 =
        (None, cand_nan\<lparr>ID := 5\<rparr>,
         world0\<lparr>markers := [marker_alice, marker_bob, marker_anon, marker_new,
                              cand_nan\<lparr>ID := 5\<rparr>], ops := 1\<rparr>)"
  by (simp add: invalid_position_def outside_unit_def in_unit_def alice_nan_def cand_nan_def cand_manual_def
      Save_def Create_def Db_Save_def Db_Create_def with_defaults_def storage_write_def
      replace_row_def insert_row_def row_of_def fresh_id_def f32_gt_def Let_def ex_defs)

section \<open>Face assignment\<close>

lemma Embeddings_frame:
  "snd (Embeddings e m) = m\<lparr>embeddings := embeddings (snd (Embeddings e m))\<rparr>"
  by (simp add: Embeddings_def)

text \<open>
  C1. For a face marker whose subject was set manually and is not empty, and a face with
  another, non-empty subject, \<^verbatim>\<open>SetFace\<close> calls the face's collision reporter exactly
  once, with the marker's embeddings (the log grows by this one call), and returns
  \<open>updated = False\<close>; the error is the reporter's, if it returns one, and none otherwise.
  The marker changes in its cache of parsed embeddings only, so its \<^verbatim>\<open>SubjectUID\<close> and
  its face are as before, and no table changes: the assignment is not applied.
\<close>

theorem SetFace_conflict:
  assumes "MarkerType m = MarkerFace" and "SubjectSrc m = SrcManual" and "SubjectUID m \<noteq> ''''"
    and "Face_SubjectUID f \<noteq> ''''" and "Face_SubjectUID f \<noteq> SubjectUID m"
  shows "SetFace e m (Some f) d w =
           (False,
            (case ReportCollision e f (fst (Embeddings e m)) of
               Inl err \<Rightarrow> Some err | Inr reported \<Rightarrow> None),
            m\<lparr>embeddings := embeddings (snd (Embeddings e m))\<rparr>,
            Some f,
            w\<lparr>collisions := collisions w @ [(f, fst (Embeddings e m))]\<rparr>)"
proof -
  obtain embs m1 where em: "Embeddings e m = (embs, m1)" by (cases "Embeddings e m")
  have m1: "m1 = m\<lparr>embeddings := embeddings m1\<rparr>"
    using Embeddings_frame[of e m] em by simp
  show ?thesis
    using assms m1
    by (simp add: SetFace_def em report_collision_def split: sum.splits)
qed

theorem SetFace_conflict_witness:
  "MarkerType marker_alice = MarkerFace \<and> SubjectSrc marker_alice = SrcManual
   \<and> SubjectUID marker_alice \<noteq> '''' \<and> Face_SubjectUID face_bob \<noteq> ''''
   \<and> Face_SubjectUID face_bob \<noteq> SubjectUID marker_alice
   \<and> SetFace env0 marker_alice (Some face_bob) (-1) world0 =
        (False, None, marker_alice\<lparr>embeddings := [[1, 0], [5], [0, 0]]\<rparr>, Some face_bob,
         world0\<lparr>collisions := [(face_bob, [[1, 0], [5], [0, 0]])]\<rparr>)
   \<and> SetFace env_err marker_alice (Some face_bob) (-1) world0 =
        (False, Some (CollaboratorError ''report failed''),
         marker_alice\<lparr>embeddings := [[1, 0], [5], [0, 0]]\<rparr>, Some face_bob,
         world0\<lparr>collisions := [(face_bob, [[1, 0], [5], [0, 0]])]\<rparr>)"
  using SetFace_conflict[of marker_alice face_bob env0 "-1" world0]
        SetFace_conflict[of marker_alice face_bob env_err "-1" world0]
  by (simp add: ex_defs Embeddings_def)

lemma assign_MatchedAt: "assign [V_MatchedAt t] = (\<lambda>r. r\<lparr>MatchedAt := t\<rparr>)"
  by (rule ext) (simp add: assign_def)

lemma SetFace_same_face_any:
  assumes "MarkerType m = MarkerFace" and "FaceID m = Face_ID f"
    and "SubjectUID m = Face_SubjectUID f"
  shows "SetFace e m (Some f) d w =
           (False, write_err e w, m\<lparr>MatchedAt := Some (clock w)\<rparr>, Some f,
            written e (update_rows (ID m) [V_MatchedAt (Some (clock w))]) w)"
  using assms
  by (simp add: SetFace_def SetFace_update_def Updates_eq assign_MatchedAt TimePointer_def)

text \<open>
  C4, as amended. For a stored face marker (its id is not 0) that already has the face's
  id and the face's subject, \<^verbatim>\<open>SetFace\<close> with any distance returns \<open>updated = False\<close> and
  changes only \<^verbatim>\<open>MatchedAt\<close>: in the struct, and (when the storage accepts the write) in
  the stored rows with the marker's id. \<^verbatim>\<open>FaceID\<close>, \<^verbatim>\<open>FaceDist\<close>, \<^verbatim>\<open>SubjectUID\<close> and
  \<^verbatim>\<open>SubjectSrc\<close> are as before, and so are the face and every other row.
\<close>

theorem SetFace_same_face:
  assumes "MarkerType m = MarkerFace" and "FaceID m = Face_ID f"
    and "SubjectUID m = Face_SubjectUID f" and "ID m \<noteq> 0"
  shows "SetFace e m (Some f) d w =
           (False, write_err e w, m\<lparr>MatchedAt := Some (clock w)\<rparr>, Some f,
            written e (set_rows (ID m) (\<lambda>r. r\<lparr>MatchedAt := Some (clock w)\<rparr>)) w)"
  using assms
  by (simp add: SetFace_same_face_any update_rows_keyed assign_MatchedAt)

theorem SetFace_same_face_witness:
  "MarkerType marker_bob = MarkerFace \<and> FaceID marker_bob = Face_ID face_bob
   \<and> SubjectUID marker_bob = Face_SubjectUID face_bob \<and> ID marker_bob \<noteq> 0
   \<and> SetFace env0 marker_bob (Some face_bob) (1 / 4) world0 =
        (False, None, marker_bob\<lparr>MatchedAt := Some 7\<rparr>, Some face_bob,
         world0\<lparr>markers := [marker_alice, marker_bob\<lparr>MatchedAt := Some 7\<rparr>, marker_anon,
                              marker_new], ops := 1\<rparr>)"
  using SetFace_same_face[of marker_bob face_bob env0 "1 / 4" world0]
  by (simp add: ex_defs write_err_def written_def set_rows_def)

text \<open>
  C4 as stated fails for a marker that was never stored: the struct of id 0 agrees with
  the face, the update of \<^verbatim>\<open>MatchedAt\<close> is sent without key condition, and the timestamp
  of every stored marker is rewritten, not only the marker's own.
\<close>

theorem SetFace_same_face_counterexample:
  "ID bob_unsaved = 0 \<and> MarkerType bob_unsaved = MarkerFace
   \<and> FaceID bob_unsaved = Face_ID face_bob
   \<and> SubjectUID bob_unsaved = Face_SubjectUID face_bob
   \<and> SetFace env0 bob_unsaved (Some face_bob) (1 / 4) world0 =
        (False, None, bob_unsaved\<lparr>MatchedAt := Some 7\<rparr>, Some face_bob,
         world0\<lparr>markers := [marker_alice\<lparr>MatchedAt := Some 7\<rparr>,
                              marker_bob\<lparr>MatchedAt := Some 7\<rparr>,
                              marker_anon\<lparr>MatchedAt := Some 7\<rparr>,
                              marker_new\<lparr>MatchedAt := Some 7\<rparr>], ops := 1\<rparr>)
   \<and> MatchedAt marker_alice = None \<and> MatchedAt marker_anon = None
   \<and> MatchedAt marker_new = None"
  by (simp add: SetFace_def SetFace_update_def Updates_def storage_write_def update_rows_def
      assign_def TimePointer_def bob_unsaved_def ex_defs)

section \<open>Clearing the face\<close>

lemma ClearFace_any:
  "(FaceID m = '''' \<longrightarrow>
      ClearFace e m w =
        (False, write_err e w, m\<lparr>MatchedAt := Some (clock w)\<rparr>,
         written e (update_rows (ID m) [V_MatchedAt (Some (clock w))]) w))
   \<and> (FaceID m \<noteq> '''' \<and> SubjectSrc m = SrcAuto \<longrightarrow>
      ClearFace e m w =
        (True, write_err e w,
         m\<lparr>Face := None, FaceID := '''', FaceDist := -1, SubjectUID := '''',
           MatchedAt := Some (clock w)\<rparr>,
         written e (update_rows (ID m)
           [V_FaceID '''', V_FaceDist (-1), V_SubjectUID '''', V_MatchedAt (Some (clock w))]) w))
   \<and> (FaceID m \<noteq> '''' \<and> SubjectSrc m \<noteq> SrcAuto \<longrightarrow>
      ClearFace e m w =
        (True, write_err e w,
         m\<lparr>Face := None, FaceID := '''', FaceDist := -1, MatchedAt := Some (clock w)\<rparr>,
         written e (update_rows (ID m)
           [V_FaceID '''', V_FaceDist (-1), V_MatchedAt (Some (clock w))]) w))"
  by (simp add: ClearFace_def Matched_def Updates_eq assign_def TimePointer_def Let_def)

text \<open>
  C7, as amended. For a stored marker (its id is not 0): without a face, \<^verbatim>\<open>ClearFace\<close>
  only refreshes \<^verbatim>\<open>MatchedAt\<close> and returns \<open>updated = False\<close>. With a face it returns
  \<open>updated = True\<close>, clears \<^verbatim>\<open>FaceID\<close>, sets \<^verbatim>\<open>FaceDist\<close> to -1 and refreshes
  \<^verbatim>\<open>MatchedAt\<close>; \<^verbatim>\<open>SubjectUID\<close> is cleared as well exactly when \<^verbatim>\<open>SubjectSrc\<close> is
  automatic, and a manual \<^verbatim>\<open>SubjectSrc\<close> is not automatic, so then the subject fields
  stay. The same columns are written to the stored rows with the marker's id when the
  storage accepts the write, and no other row changes.
\<close>

theorem ClearFace_effect:
  assumes "ID m \<noteq> 0"
  shows "(FaceID m = '''' \<longrightarrow>
      ClearFace e m w =
        (False, write_err e w, m\<lparr>MatchedAt := Some (clock w)\<rparr>,
         written e (set_rows (ID m) (\<lambda>r. r\<lparr>MatchedAt := Some (clock w)\<rparr>)) w))
   \<and> (FaceID m \<noteq> '''' \<and> SubjectSrc m = SrcAuto \<longrightarrow>
      ClearFace e m w =
        (True, write_err e w,
         m\<lparr>Face := None, FaceID := '''', FaceDist := -1, SubjectUID := '''',
           MatchedAt := Some (clock w)\<rparr>,
         written e (set_rows (ID m)
           (\<lambda>r. r\<lparr>FaceID := '''', FaceDist := -1, SubjectUID := '''',
                   MatchedAt := Some (clock w)\<rparr>)) w))
   \<and> (FaceID m \<noteq> '''' \<and> SubjectSrc m \<noteq> SrcAuto \<longrightarrow>
      ClearFace e m w =
        (True, write_err e w,
         m\<lparr>Face := None, FaceID := '''', FaceDist := -1, MatchedAt := Some (clock w)\<rparr>,
         written e (set_rows (ID m)
           (\<lambda>r. r\<lparr>FaceID := '''', FaceDist := -1, MatchedAt := Some (clock w)\<rparr>)) w))
   \<and> SrcManual \<noteq> SrcAuto"
proof -
  have a1: "assign [V_MatchedAt t] = (\<lambda>r. r\<lparr>MatchedAt := t\<rparr>)" for t
    by (rule ext) (simp add: assign_def)
  have a2: "assign [V_FaceID '''', V_FaceDist (-1), V_SubjectUID '''', V_MatchedAt t]
      = (\<lambda>r. r\<lparr>FaceID := '''', FaceDist := -1, SubjectUID := '''', MatchedAt := t\<rparr>)" for t
    by (rule ext) (simp add: assign_def)
  have a3: "assign [V_FaceID '''', V_FaceDist (-1), V_MatchedAt t]
      = (\<lambda>r. r\<lparr>FaceID := '''', FaceDist := -1, MatchedAt := t\<rparr>)" for t
    by (rule ext) (simp add: assign_def)
  show ?thesis
    using ClearFace_any[of m e w] assms
    by (simp add: update_rows_keyed a1 a2 a3 SrcManual_def SrcAuto_def)
qed

theorem ClearFace_effect_witness:
  "ID marker_new \<noteq> 0 \<and> FaceID marker_new = ''''
   \<and> ClearFace env0 marker_new world0 =
        (False, None, marker_new\<lparr>MatchedAt := Some 7\<rparr>,
         world0\<lparr>markers := [marker_alice, marker_bob, marker_anon,
                              marker_new\<lparr>MatchedAt := Some 7\<rparr>], ops := 1\<rparr>)
   \<and> ID marker_bob \<noteq> 0 \<and> FaceID marker_bob \<noteq> '''' \<and> SubjectSrc marker_bob = SrcAuto
   \<and> ClearFace env0 marker_bob world0 =
        (True, None,
         marker_bob\<lparr>FaceID := '''', FaceDist := -1, SubjectUID := '''', MatchedAt := Some 7\<rparr>,
         world0\<lparr>markers := [marker_alice,
              marker_bob\<lparr>FaceID := '''', FaceDist := -1, SubjectUID := '''', MatchedAt := Some 7\<rparr>,
              marker_anon, marker_new], ops := 1\<rparr>)
   \<and> ID marker_alice \<noteq> 0 \<and> FaceID marker_alice \<noteq> '''' \<and> SubjectSrc marker_alice = SrcManual
   \<and> ClearFace env0 marker_alice world0 =
        (True, None,
         marker_alice\<lparr>FaceID := '''', FaceDist := -1, MatchedAt := Some 7\<rparr>,
         world0\<lparr>markers := [marker_alice\<lparr>FaceID := '''', FaceDist := -1, MatchedAt := Some 7\<rparr>,
              marker_bob, marker_anon, marker_new], ops := 1\<rparr>)"
  using ClearFace_effect[of marker_new env0 world0] ClearFace_effect[of marker_bob env0 world0]
        ClearFace_effect[of marker_alice env0 world0]
  by (simp add: ex_defs write_err_def written_def set_rows_def)

text \<open>
  C7 as stated fails for a marker that was never stored. Without a face, \<^verbatim>\<open>ClearFace\<close> on
  a struct of id 0 rewrites the timestamp of every stored marker. With a face and an
  automatic subject it clears the face and the subject of every stored marker, the
  manually set subject of \<open>marker_alice\<close> included.
\<close>

theorem ClearFace_effect_counterexample:
  "ID new_unsaved = 0 \<and> FaceID new_unsaved = ''''
   \<and> ClearFace env0 new_unsaved world0 =
        (False, None, new_unsaved\<lparr>MatchedAt := Some 7\<rparr>,
         world0\<lparr>markers := [marker_alice\<lparr>MatchedAt := Some 7\<rparr>,
                              marker_bob\<lparr>MatchedAt := Some 7\<rparr>,
                              marker_anon\<lparr>MatchedAt := Some 7\<rparr>,
                              marker_new\<lparr>MatchedAt := Some 7\<rparr>], ops := 1\<rparr>)
   \<and> ID bob_unsaved = 0 \<and> FaceID bob_unsaved \<noteq> '''' \<and> SubjectSrc bob_unsaved = SrcAuto
   \<and> SubjectSrc marker_alice = SrcManual \<and> SubjectUID marker_alice = ''alice''
   \<and> FaceID marker_alice = ''F2''
   \<and> map SubjectUID (markers (snd (snd (snd (ClearFace env0 bob_unsaved world0))))) =
        ['''', '''', '''', '''']
   \<and> map FaceID (markers (snd (snd (snd (ClearFace env0 bob_unsaved world0))))) =
        ['''', '''', '''', '''']"
  by (simp add: ClearFace_def Matched_def Updates_def storage_write_def update_rows_def
      assign_def TimePointer_def bob_unsaved_def new_unsaved_def Let_def ex_defs)

section \<open>Deduplication on ingest\<close>


lemma first_near_Some:
  "first_near m d w = Some r \<Longrightarrow> r \<in> set (markers w) \<and> ID r \<noteq> 0 \<and> near m d r"
proof -
  assume "first_near m d w = Some r"
  then obtain i where i: "i < length (sort_key ID (stored_rows w))"
    and n: "near m d (sort_key ID (stored_rows w) ! i)"
    and r: "r = sort_key ID (stored_rows w) ! i"
    unfolding first_near_def find_Some_iff by blast
  from i have "sort_key ID (stored_rows w) ! i \<in> set (sort_key ID (stored_rows w))"
    by (rule nth_mem)
  with r have "r \<in> set (stored_rows w)" by simp
  with n r show ?thesis by (simp add: stored_rows_def)
qed


lemma assign_overwrite:
  "assign [V_X (X m), V_Y (Y m), V_W (W m), V_H (H m), V_Score (Score m),
           V_LandmarksJSON (LandmarksJSON m), V_EmbeddingsJSON (EmbeddingsJSON m),
           V_SubjectUID (SubjectUID m)] = overwrite m"
  by (rule ext) (simp add: assign_def overwrite_def)

lemma UpdateOrCreateMarker_dup:
  assumes "ID m = 0" and "first_near m (7 / 100) w = Some r"
  shows "UpdateOrCreateMarker e m w =
           (if SrcPriority e (MarkerSrc m) < SrcPriority e (MarkerSrc r) then (r, None, w)
            else (overwrite m r, write_err e w, written e (set_rows (ID r) (overwrite m)) w))"
proof -
  have "ID r \<noteq> 0" using first_near_Some[OF assms(2)] by simp
  then show ?thesis
    using assms by (simp add: UpdateOrCreateMarker_def Updates_keyed assign_overwrite)
qed





lemmas cand_defs = cand_manual_def cand_low_def cand_far_def cand_zero_def cand_blank_def

text \<open>The bounds of the window for the coordinates of the examples.\<close>

lemma bounds_5_16:
  "f32_sub (Finite (5 / 16)) (round32 (7 / 100)) = Finite (16273900 / 2 ^ 26)"
  "f32_add (Finite (5 / 16)) (round32 (7 / 100)) = Finite (12834570 / 2 ^ 25)"
proof -
  have b1: "binade (32547799 / 134217728) = -3" by (rule binade_eq) simp_all
  have b2: "binade (51338281 / 134217728) = -2" by (rule binade_eq) simp_all
  show "f32_sub (Finite (5 / 16)) (round32 (7 / 100)) = Finite (16273900 / 2 ^ 26)"
    unfolding round32_d by (simp add: f32_sub_def round32_def b1 round_even_def)
  show "f32_add (Finite (5 / 16)) (round32 (7 / 100)) = Finite (12834570 / 2 ^ 25)"
    unfolding round32_d by (simp add: round32_def b2 round_even_def)
qed

lemma bounds_3_16:
  "f32_sub (Finite (3 / 16)) (round32 (7 / 100)) = Finite (15770583 / 2 ^ 27)"
  "f32_add (Finite (3 / 16)) (round32 (7 / 100)) = Finite (8640266 / 2 ^ 25)"
proof -
  have b1: "binade (15770583 / 134217728) = -4" by (rule binade_eq) simp_all
  have b2: "binade (34561065 / 134217728) = -2" by (rule binade_eq) simp_all
  show "f32_sub (Finite (3 / 16)) (round32 (7 / 100)) = Finite (15770583 / 2 ^ 27)"
    unfolding round32_d by (simp add: f32_sub_def round32_def b1 round_even_def)
  show "f32_add (Finite (3 / 16)) (round32 (7 / 100)) = Finite (8640266 / 2 ^ 25)"
    unfolding round32_d by (simp add: round32_def b2 round_even_def)
qed



lemma first_near_bob: "first_near cand_manual (7 / 100) world0 = Some marker_bob"
  by (simp add: first_near_def stored_rows_def near_def f32_gt_def cand_defs ex_defs
      bounds_5_16 bounds_3_16)











lemma kept_fields_overwrite: "kept_fields (overwrite m r) = kept_fields r"
  by (simp add: kept_fields_def overwrite_def)

lemma map_kept_fields_overwrite:
  "map kept_fields (map (\<lambda>q. if ID q = i then overwrite m q else q) rows) = map kept_fields rows"
  by (induction rows) (simp_all add: kept_fields_overwrite)

text \<open>
  C10. When \<^verbatim>\<open>UpdateOrCreateMarker\<close> overwrites a near-duplicate (the candidate's
  priority is not lower), the marker returned is the one found with X, Y, W, H, Score,
  LandmarksJSON, EmbeddingsJSON and SubjectUID taken from the candidate, and nothing else:
  its MarkerSrc, SubjectSrc, MarkerType, MarkerName, FaceID, FaceDist, Size and
  MarkerInvalid are as before, so the provenance tags are not upgraded. The stored rows
  change in these eight columns only, whether or not the storage accepts the write.
\<close>

theorem UpdateOrCreateMarker_overwrite_frame:
  assumes "ID m = 0" and "first_near m (7 / 100) w = Some r"
    and "\<not> SrcPriority e (MarkerSrc m) < SrcPriority e (MarkerSrc r)"
  shows "fst (UpdateOrCreateMarker e m w) = overwrite m r
   \<and> kept_fields (fst (UpdateOrCreateMarker e m w)) = kept_fields r
   \<and> markers (snd (snd (UpdateOrCreateMarker e m w))) =
        (if StorageErr e (ops w) = None
         then map (\<lambda>q. if ID q = ID r then overwrite m q else q) (markers w)
         else markers w)
   \<and> map kept_fields (markers (snd (snd (UpdateOrCreateMarker e m w)))) =
        map kept_fields (markers w)"
  using assms
  by (simp add: UpdateOrCreateMarker_dup kept_fields_overwrite written_def set_rows_def
      map_kept_fields_overwrite)

theorem UpdateOrCreateMarker_overwrite_frame_witness:
  "ID cand_manual = 0 \<and> first_near cand_manual (7 / 100) world0 = Some marker_bob
   \<and> \<not> SrcPriority env0 (MarkerSrc cand_manual) < SrcPriority env0 (MarkerSrc marker_bob)
   \<and> fst (UpdateOrCreateMarker env0 cand_manual world0) = overwrite cand_manual marker_bob
   \<and> kept_fields (fst (UpdateOrCreateMarker env0 cand_manual world0)) =
        (SrcImage, SrcAuto, MarkerFace, '''', ''F1'', 1 / 2, 100, False)
   \<and> MarkerSrc cand_manual = SrcManual \<and> SubjectSrc cand_manual = SrcManual
   \<and> map kept_fields (markers (snd (snd (UpdateOrCreateMarker env0 cand_manual world0)))) =
        map kept_fields (markers world0)"
proof -
  have h1: "ID cand_manual = 0" by (simp add: cand_defs ex_defs)
  have h2: "\<not> SrcPriority env0 (MarkerSrc cand_manual) < SrcPriority env0 (MarkerSrc marker_bob)"
    by (simp add: cand_defs ex_defs)
  have k: "kept_fields marker_bob =
      (SrcImage, SrcAuto, MarkerFace, '''', ''F1'', 1 / 2, 100, False)"
    by (simp add: kept_fields_def ex_defs)
  have s: "MarkerSrc cand_manual = SrcManual \<and> SubjectSrc cand_manual = SrcManual"
    by (simp add: cand_defs ex_defs)
  show ?thesis
    using UpdateOrCreateMarker_overwrite_frame[OF h1 first_near_bob h2] h1 h2 k s first_near_bob
    by (simp add: kept_fields_overwrite)
qed

section \<open>Clearing the subject\<close>

lemma ClearSubject_no_face:
  assumes "Face m = None" and "FindFace e (faces w) (FaceID m) = None"
  shows "ClearSubject e src m w = (None, clear_fields src m, w)"
  using assms by (simp add: ClearSubject_def clear_fields_def)

lemma ClearSubject_face:
  assumes "Face m = Some f"
  shows "ClearSubject e src m w =
           (case ReportCollision e f (fst (Embeddings e m)) of
              Inl err \<Rightarrow>
                (Some err, snd (Embeddings e m),
                 w\<lparr>collisions := collisions w @ [(f, fst (Embeddings e m))]\<rparr>)
            | Inr reported \<Rightarrow>
                (write_err e w,
                 (if StorageErr e (ops w) = None
                  then clear_fields src (snd (Embeddings e m))
                  else (clear_fields src (snd (Embeddings e m)))\<lparr>Face := Face m\<rparr>),
                 written e (update_rows (ID m)
                     [V_MarkerName '''', V_FaceID '''', V_FaceDist (-1), V_SubjectUID '''',
                      V_SubjectSrc src])
                   (w\<lparr>collisions := collisions w @ [(f, fst (Embeddings e m))]\<rparr>)))"
proof -
  obtain embs m2 where em: "Embeddings e m = (embs, m2)" by (cases "Embeddings e m")
  have m2: "m2 = m\<lparr>embeddings := embeddings m2\<rparr>"
    using Embeddings_frame[of e m] em by simp
  have a: "assign [V_MarkerName '''', V_FaceID '''', V_FaceDist (-1), V_SubjectUID '''',
                   V_SubjectSrc src] r =
      r\<lparr>MarkerName := '''', FaceID := '''', FaceDist := -1, SubjectUID := '''',
              SubjectSrc := src\<rparr>" for r
    by (simp add: assign_def)
  have i: "ID m2 = ID m" and fc: "Face m2 = Face m"
  proof -
    have "ID m2 = ID (m\<lparr>embeddings := embeddings m2\<rparr>)" using m2 by simp
    then show "ID m2 = ID m" by simp
    have "Face m2 = Face (m\<lparr>embeddings := embeddings m2\<rparr>)" using m2 by simp
    then show "Face m2 = Face m" by simp
  qed
  show ?thesis
    using assms i fc
    by (auto simp: ClearSubject_def em report_collision_def Updates_eq a write_err_def
        written_def clear_fields_def split: sum.splits option.splits)
qed

text \<open>
  C8 at a failing input: a marker named by hand, with a subject and without a face.
  \<^verbatim>\<open>ClearSubject\<close> finds no face, returns no error and clears the fields of the struct,
  but sends no update: the world is as before, and the stored row still holds the name and
  the subject.
\<close>

theorem ClearSubject_without_face_not_persisted:
  "Face marker_named = None \<and> FindFace env0 (faces world_named) (FaceID marker_named) = None
   \<and> ClearSubject env0 SrcAuto marker_named world_named =
        (None, marker_named\<lparr>MarkerName := '''', SubjectUID := '''', SubjectSrc := SrcAuto\<rparr>,
         world_named)
   \<and> map SubjectUID (markers world_named) = [''alice'']
   \<and> map MarkerName (markers world_named) = [''Alice'']"
  by (simp add: ClearSubject_def clear_fields_def marker_named_def world_named_def ex_defs)

section \<open>What \<^verbatim>\<open>SyncSubject\<close> leaves alone\<close>

text \<open>
  \<^verbatim>\<open>SyncSubject\<close> and the functions it calls assign the subject link, the face link and
  the caches of the struct, and no other field.
\<close>

lemma Embeddings_sync_frame: "sync_frame (snd (Embeddings e m)) = sync_frame m"
  by (simp add: Embeddings_def sync_frame_def)

lemma GetSubject_frame: "sync_frame (fst (snd (GetSubject e m w))) = sync_frame m"
  by (simp add: GetSubject_def sync_frame_def split: option.splits prod.splits)

lemma GetFace_frame: "sync_frame (fst (snd (GetFace e m w))) = sync_frame m"
proof -
  obtain embs m1 where em: "Embeddings e m = (embs, m1)" by (cases "Embeddings e m")
  have "sync_frame m1 = sync_frame m" using Embeddings_sync_frame[of e m] em by simp
  then have "sync_frame (m1\<lparr>Face := fo, FaceID := i\<rparr>) = sync_frame m" for fo i
    by (simp add: sync_frame_def)
  moreover have "sync_frame (m\<lparr>Face := fo\<rparr>) = sync_frame m" for fo
    by (simp add: sync_frame_def)
  ultimately show ?thesis
    using \<open>sync_frame m1 = sync_frame m\<close>
    by (simp add: GetFace_def em split: option.splits prod.splits)
qed

lemma sync_name_frame: "sync_frame (fst (snd (sync_name e s m w))) = sync_frame m"
  by (simp add: sync_name_def sync_frame_def split: prod.splits)

lemma sync_face_frame: "sync_frame (fst (sync_face e m w)) = sync_frame m"
proof -
  obtain fo m1 w1 where g: "GetFace e m w = (fo, m1, w1)" by (cases "GetFace e m w")
  have "sync_frame m1 = sync_frame m" using GetFace_frame[of e m w] g by simp
  moreover from this have "sync_frame (m1\<lparr>FaceID := i\<rparr>) = sync_frame m" for i
    by (simp add: sync_frame_def)
  ultimately show ?thesis
    by (simp add: sync_face_def g split: option.splits)
qed

lemma sync_related_marker: "fst (snd (sync_related e u m w)) = m"
  by (simp add: sync_related_def storage_write_eq write_err_def split: option.splits)

lemma SyncSubject_frame: "sync_frame (fst (snd (SyncSubject e u m w))) = sync_frame m"
proof (cases "MarkerType m \<noteq> MarkerFace")
  case True
  then show ?thesis by (simp add: SyncSubject_def)
next
  case False
  obtain so m1 w1 where g: "GetSubject e m w = (so, m1, w1)" by (cases "GetSubject e m w")
  have f1: "sync_frame m1 = sync_frame m" using GetSubject_frame[of e m w] g by simp
  show ?thesis
  proof (cases so)
    case None
    with False g f1 show ?thesis by (simp add: SyncSubject_def)
  next
    case (Some subj)
    obtain err m2 w2 where n: "sync_name e subj m1 w1 = (err, m2, w2)"
      by (cases "sync_name e subj m1 w1")
    have f2: "sync_frame m2 = sync_frame m" using sync_name_frame[of e subj m1 w1] n f1 by simp
    obtain m3 w3 where s: "sync_face e m2 w2 = (m3, w3)" by (cases "sync_face e m2 w2")
    have f3: "sync_frame m3 = sync_frame m" using sync_face_frame[of e m2 w2] s f2 by simp
    show ?thesis
      using False g Some n s f2 f3 sync_related_marker[of e u m3 w3]
      by (cases err) (simp_all add: SyncSubject_def)
  qed
qed

lemma sync_frame_fields:
  assumes "sync_frame m' = sync_frame m"
  shows "ID m' = ID m" and "Score m' = Score m" and "MarkerInvalid m' = MarkerInvalid m"
    and "FaceDist m' = FaceDist m" and "X m' = X m" and "Y m' = Y m"
proof -
  have "ID (sync_frame m') = ID (sync_frame m)" using assms by simp
  then show "ID m' = ID m" by (simp add: sync_frame_def)
  have "Score (sync_frame m') = Score (sync_frame m)" using assms by simp
  then show "Score m' = Score m" by (simp add: sync_frame_def)
  have "MarkerInvalid (sync_frame m') = MarkerInvalid (sync_frame m)" using assms by simp
  then show "MarkerInvalid m' = MarkerInvalid m" by (simp add: sync_frame_def)
  have "FaceDist (sync_frame m') = FaceDist (sync_frame m)" using assms by simp
  then show "FaceDist m' = FaceDist m" by (simp add: sync_frame_def)
  have "X (sync_frame m') = X (sync_frame m)" using assms by simp
  then show "X m' = X m" by (simp add: sync_frame_def)
  have "Y (sync_frame m') = Y (sync_frame m)" using assms by simp
  then show "Y m' = Y m" by (simp add: sync_frame_def)
qed

section \<open>The score of valid markers\<close>

lemma with_defaults_score: "score_ok (with_defaults m) = score_ok m"
  by (simp add: with_defaults_def score_ok_def)

lemma Db_Create_score_ok: "score_ok m \<Longrightarrow> score_ok (fst (snd (Db_Create e m w)))"
  by (auto simp: Db_Create_def Let_def storage_write_eq write_err_def with_defaults_score
      score_ok_def with_defaults_def split: option.splits)

lemma Db_Save_score_ok: "score_ok m \<Longrightarrow> score_ok (fst (snd (Db_Save e m w)))"
  using Db_Create_score_ok[of m e w] Db_Create_score_ok[of m e "written e (replace_row m) w"]
  by (auto simp: Db_Save_def storage_write_eq write_err_def split: option.splits)

lemma Save_score_ok: "score_ok m \<Longrightarrow> score_ok (fst (snd (Save e m w)))"
  using Db_Save_score_ok[of m e w] by (simp add: Save_def)

lemma Db_Create_stores:
  assumes "Db_Create e m w = (None, m', w')"
  shows "row_of m' \<in> set (markers w')"
proof -
  let ?m = "with_defaults (if ID m = 0 then m\<lparr>ID := fresh_id (markers w)\<rparr> else m)"
  from assms have n: "ID ?m \<notin> set (map ID (markers w))"
    by (auto simp: Db_Create_def Let_def split: if_splits)
  from assms n have ok: "StorageErr e (ops w) = None"
    by (auto simp: Db_Create_def Let_def storage_write_eq write_err_def split: if_splits option.splits)
  from assms n ok have "m' = ?m" and "w' = written e (insert_row ?m) w"
    by (auto simp: Db_Create_def Let_def storage_write_eq write_err_def split: if_splits)
  with ok show ?thesis by (simp add: written_def insert_row_def)
qed

lemma replaced_mem:
  "i \<in> set (map ID rows) \<Longrightarrow> g \<in> set (map (\<lambda>r. if ID r = i then g else r) rows)"
  by (induction rows) auto

lemma Db_Save_stores:
  assumes "Db_Save e m w = (None, m', w')"
  shows "row_of m' \<in> set (markers w')"
proof (cases "ID m = 0")
  case True
  with assms show ?thesis by (simp add: Db_Save_def Db_Create_stores)
next
  case False
  from assms False have ok: "StorageErr e (ops w) = None"
    by (auto simp: Db_Save_def storage_write_eq write_err_def split: option.splits)
  show ?thesis
  proof (cases "ID m \<in> set (map ID (markers w))")
    case True
    with assms False ok have m': "m' = m" and w': "w' = written e (replace_row m) w"
      by (auto simp: Db_Save_def storage_write_eq write_err_def)
    show ?thesis
      using ok m' w' True replaced_mem[of "ID m" "markers w" "row_of m"]
      by (simp add: written_def replace_row_def)
  next
    case absent: False
    with assms False ok have "Db_Create e m (written e (replace_row m) w) = (None, m', w')"
      by (auto simp: Db_Save_def storage_write_eq write_err_def)
    then show ?thesis by (rule Db_Create_stores)
  qed
qed

lemma Save_stores:
  assumes "Save e m w = (None, m', w')"
  shows "row_of m' \<in> set (markers w')"
  using assms by (auto simp: Save_def Db_Save_stores split: if_splits)

lemma form_flags_score_ok: "score_ok (snd (form_flags f m))"
  by (auto simp: form_flags_def score_ok_def Let_def)

lemma score_ok_row_of: "score_ok (row_of m) = score_ok m"
  by (simp add: score_ok_def row_of_def)

text \<open>
  C9, as amended. \<^verbatim>\<open>SaveForm\<close> enforces the score: the marker it leaves in memory is
  invalid or has a score of at least 100, whatever the outcome, and when \<^verbatim>\<open>SaveForm\<close>
  saves (a flag changed or a name was given) and returns no error, the row it has stored is
  that marker, so the stored row is invalid or has a score of at least 100.
  \<^verbatim>\<open>Create\<close>, \<^verbatim>\<open>Save\<close> and \<^verbatim>\<open>UpdateOrCreateMarker\<close> store the score they are given.
\<close>

theorem SaveForm_score:
  "score_ok (fst (snd (SaveForm e f m w)))
   \<and> (fst (SaveForm e f m w) = None \<and> form_saves e f m \<longrightarrow>
        row_of (fst (snd (SaveForm e f m w))) \<in> set (markers (snd (snd (SaveForm e f m w))))
        \<and> score_ok (row_of (fst (snd (SaveForm e f m w)))))"
proof -
  obtain changed m2 where ff: "form_flags f m = (changed, m2)" by (cases "form_flags f m")
  have ok2: "score_ok m2" using form_flags_score_ok[of f m] ff by simp
  let ?named = "Form_SubjectSrc f = SrcManual \<and> TrimSpace e (Form_MarkerName f) \<noteq> ''''"
  let ?m3 = "m2\<lparr>SubjectSrc := SrcManual,
                 MarkerName := Title e (Clip e (Form_MarkerName f) (ClipDefault e))\<rparr>"
  have ok3: "score_ok ?m3" using ok2 by (simp add: score_ok_def)
  obtain err m4 w4 where sy: "SyncSubject e True ?m3 w = (err, m4, w4)"
    by (cases "SyncSubject e True ?m3 w")
  have "sync_frame m4 = sync_frame ?m3" using SyncSubject_frame[of e True ?m3 w] sy by simp
  then have "Score m4 = Score ?m3" and "MarkerInvalid m4 = MarkerInvalid ?m3"
    by (rule sync_frame_fields)+
  with ok3 have ok4: "score_ok m4" by (simp add: score_ok_def)
  have mem: "score_ok (fst (snd (SaveForm e f m w)))"
    using ok2 ok4 Save_score_ok[of m4 e w4] Save_score_ok[of m2 e w]
    by (cases err) (simp_all add: SaveForm_def ff sy)
  have st: "row_of (fst (snd (SaveForm e f m w))) \<in> set (markers (snd (snd (SaveForm e f m w))))"
    if n: "fst (SaveForm e f m w) = None" and s: "form_saves e f m"
  proof (cases ?named)
    case True
    with n sy have e0: "err = None" by (cases err) (simp_all add: SaveForm_def ff)
    from True e0 sy have eq: "SaveForm e f m w = Save e m4 w4" by (simp add: SaveForm_def ff)
    obtain m5 w5 where "Save e m4 w4 = (None, m5, w5)"
      using n eq by (cases "Save e m4 w4") simp
    then show ?thesis using eq Save_stores[of e m4 w4 m5 w5] by simp
  next
    case False
    with s ff have c: changed by (simp add: form_saves_def)
    from False c have eq: "SaveForm e f m w = Save e m2 w" by (auto simp: SaveForm_def ff)
    obtain m5 w5 where "Save e m2 w = (None, m5, w5)"
      using n eq by (cases "Save e m2 w") simp
    then show ?thesis using eq Save_stores[of e m2 w m5 w5] by simp
  qed
  show ?thesis using mem st by (simp add: score_ok_row_of)
qed

theorem SaveForm_score_witness:
  "fst (SaveForm env0 form_valid marker_bob world0) = None \<and> form_saves env0 form_valid marker_bob
   \<and> \<not> score_ok marker_bob
   \<and> SaveForm env0 form_valid marker_bob world0 =
        (None, marker_bob\<lparr>Score := 100\<rparr>,
         world0\<lparr>markers := [marker_alice, marker_bob\<lparr>Score := 100\<rparr>, marker_anon, marker_new],
                ops := 1\<rparr>)
   \<and> score_ok (fst (snd (SaveForm env0 form_valid marker_bob world0)))
   \<and> row_of (fst (snd (SaveForm env0 form_valid marker_bob world0)))
        \<in> set (markers (snd (snd (SaveForm env0 form_valid marker_bob world0))))"
proof -
  have ev: "SaveForm env0 form_valid marker_bob world0 =
        (None, marker_bob\<lparr>Score := 100\<rparr>,
         world0\<lparr>markers := [marker_alice, marker_bob\<lparr>Score := 100\<rparr>, marker_anon, marker_new],
                ops := 1\<rparr>)"
    by (simp add: SaveForm_def form_flags_def form_valid_def Save_def Db_Save_def
        storage_write_def replace_row_def row_of_def f32_gt_def ex_defs)
  have h1: "fst (SaveForm env0 form_valid marker_bob world0) = None" by (simp add: ev)
  have h2: "form_saves env0 form_valid marker_bob"
    by (simp add: form_saves_def form_flags_def form_valid_def ex_defs)
  have h3: "\<not> score_ok marker_bob" by (simp add: score_ok_def ex_defs)
  show ?thesis
    using SaveForm_score[of env0 form_valid marker_bob world0] h1 h2 h3 ev by simp
qed

text \<open>
  C9 as stated fails: \<^verbatim>\<open>Create\<close> stores a marker made by \<^verbatim>\<open>NewFaceMarker\<close> from a
  detection of score 10; the stored marker is not invalid and its score is below 100.
\<close>

theorem Create_low_score_counterexample:
  "\<not> MarkerInvalid (NewFaceMarker det_low 9 '''')
   \<and> Score (NewFaceMarker det_low 9 '''') = 10
   \<and> Create env0 (NewFaceMarker det_low 9 '''') world0 =
        (None, (NewFaceMarker det_low 9 '''')\<lparr>ID := 5\<rparr>,
         world0\<lparr>markers := markers world0 @ [(NewFaceMarker det_low 9 '''')\<lparr>ID := 5\<rparr>],
                ops := 1\<rparr>)
   \<and> \<not> score_ok ((NewFaceMarker det_low 9 '''')\<lparr>ID := 5\<rparr>)"
  by (simp add: Create_def Db_Create_def storage_write_def insert_row_def row_of_def fresh_id_def
      with_defaults_def f32_gt_def NewFaceMarker_def NewMarker_def zero_marker_def det_low_def
      score_ok_def ex_defs Let_def)

section \<open>The distance computed by \<^verbatim>\<open>SetFace\<close>\<close>

lemma EuclideanDistance_nonneg: "0 \<le> EuclideanDistance a b"
proof -
  have "0 \<le> sum_list (map (\<lambda>(x, y). (x - y) * (x - y)) (zip a b))"
    by (rule sum_list_nonneg) auto
  then show ?thesis by (simp add: EuclideanDistance_def)
qed

lemma matching_Cons:
  "matching fe (em # es) = (if length em = length fe then em # matching fe es else matching fe es)"
  by (simp add: matching_def)

lemma smallest_dist_acc:
  "0 \<le> fd \<Longrightarrow>
   smallest_dist fe es fd = Min (insert fd (set (map (\<lambda>em. EuclideanDistance em fe) (matching fe es))))"
proof (induction es arbitrary: fd)
  case Nil
  then show ?case by (simp add: matching_def)
next
  case (Cons em es)
  let ?S = "set (map (\<lambda>em. EuclideanDistance em fe) (matching fe es))"
  let ?d = "EuclideanDistance em fe"
  have fin: "finite ?S" by simp
  show ?case
  proof (cases "length em = length fe")
    case False
    with Cons show ?thesis by (simp add: matching_Cons)
  next
    case True
    have d0: "0 \<le> ?d" by (rule EuclideanDistance_nonneg)
    show ?thesis
    proof (cases "?d < fd")
      case less: True
      have "smallest_dist fe (em # es) fd = Min (insert ?d ?S)"
        using True less Cons.IH[OF d0] by simp
      also have "\<dots> = Min (insert fd (insert ?d ?S))"
      proof -
        have "Min (insert fd (insert ?d ?S)) = min fd (Min (insert ?d ?S))"
          by (rule Min_insert) (simp_all add: fin)
        moreover have "Min (insert ?d ?S) \<le> ?d" by (rule Min_le) (simp_all add: fin)
        moreover from this less have "Min (insert ?d ?S) \<le> fd" by linarith
        then have "min fd (Min (insert ?d ?S)) = Min (insert ?d ?S)" by (rule min_absorb2)
        ultimately show ?thesis by (simp only:)
      qed
      finally show ?thesis using True by (simp add: matching_Cons)
    next
      case notless: False
      have "smallest_dist fe (em # es) fd = Min (insert fd ?S)"
        using True notless Cons.prems Cons.IH[OF Cons.prems] by simp
      also have "\<dots> = Min (insert fd (insert ?d ?S))"
      proof -
        have "Min (insert fd (insert ?d ?S)) = Min (insert ?d (insert fd ?S))"
          by (simp add: insert_commute)
        also have "\<dots> = min ?d (Min (insert fd ?S))"
          by (rule Min_insert) (simp_all add: fin)
        also have "\<dots> = Min (insert fd ?S)"
        proof -
          have "Min (insert fd ?S) \<le> fd" by (rule Min_le) (simp_all add: fin)
          with notless have "Min (insert fd ?S) \<le> ?d" by linarith
          then show ?thesis by (rule min_absorb2)
        qed
        finally show ?thesis by simp
      qed
      finally show ?thesis using True by (simp add: matching_Cons)
    qed
  qed
qed

lemma smallest_dist_min_dist: "fd < 0 \<Longrightarrow> smallest_dist fe es fd = min_dist fe es fd"
proof (induction es)
  case Nil
  then show ?case by (simp add: min_dist_def matching_def)
next
  case (Cons em es)
  show ?case
  proof (cases "length em = length fe")
    case False
    with Cons show ?thesis by (simp add: min_dist_def matching_Cons)
  next
    case True
    have "smallest_dist fe (em # es) fd = smallest_dist fe es (EuclideanDistance em fe)"
      using True Cons.prems by simp
    also have "\<dots> = Min (insert (EuclideanDistance em fe)
        (set (map (\<lambda>em. EuclideanDistance em fe) (matching fe es))))"
      by (rule smallest_dist_acc) (rule EuclideanDistance_nonneg)
    finally show ?thesis using True by (simp add: min_dist_def matching_Cons)
  qed
qed

lemma Embeddings_fst_upd:
  "fst (Embeddings e (m\<lparr>FaceID := i, FaceDist := d\<rparr>)) = fst (Embeddings e m)"
  by (simp add: Embeddings_def)

lemma compute_dist_FaceDist:
  "d < 0 \<Longrightarrow>
   FaceDist (compute_dist e f (m\<lparr>FaceID := i, FaceDist := d\<rparr>)) =
     min_dist (Face_Embedding f) (fst (Embeddings e m)) d"
proof -
  assume d: "d < 0"
  let ?m = "m\<lparr>FaceID := i, FaceDist := d\<rparr>"
  obtain embs m1 where em: "Embeddings e ?m = (embs, m1)" by (cases "Embeddings e ?m")
  have "fst (Embeddings e ?m) = fst (Embeddings e m)" by (rule Embeddings_fst_upd)
  with em have e1: "embs = fst (Embeddings e m)" by simp
  have "m1 = ?m\<lparr>embeddings := embeddings m1\<rparr>" using Embeddings_frame[of e ?m] em by simp
  then have "FaceDist m1 = FaceDist (?m\<lparr>embeddings := embeddings m1\<rparr>)" by simp
  then have fd: "FaceDist m1 = d" by simp
  show ?thesis
    using d by (simp add: compute_dist_def em fd e1[symmetric] smallest_dist_min_dist)
qed

lemma assign_setface:
  "assign [V_FaceID a, V_FaceDist b, V_SubjectUID c, V_SubjectSrc s, V_MatchedAt t] =
     (\<lambda>r. r\<lparr>FaceID := a, FaceDist := b, SubjectUID := c, SubjectSrc := s, MatchedAt := t\<rparr>)"
  by (rule ext) (simp add: assign_def)

lemma Face_Update_eq:
  "Face_Update_SubjectUID e v f w =
     (write_err e w, f\<lparr>Face_SubjectUID := v\<rparr>,
      written e (\<lambda>w. w\<lparr>faces := map (\<lambda>r. if Face_ID r = Face_ID f then r\<lparr>Face_SubjectUID := v\<rparr>
                                           else r) (faces w)\<rparr>) w)"
  by (simp add: Face_Update_SubjectUID_def storage_write_eq)

lemma SetFace_assign_result:
  fixes e m f d w
  defines "m3 \<equiv> (if Face_SubjectUID f \<noteq> ''''
                  then (compute_dist e f (m\<lparr>FaceID := Face_ID f, FaceDist := d\<rparr>))
                         \<lparr>SubjectUID := Face_SubjectUID f\<rparr>
                  else compute_dist e f (m\<lparr>FaceID := Face_ID f, FaceDist := d\<rparr>))"
  shows "FaceDist (fst (snd (snd (SetFace_assign e m f d w)))) =
           FaceDist (compute_dist e f (m\<lparr>FaceID := Face_ID f, FaceDist := d\<rparr>))
       \<and> (fst (snd (SetFace_assign e m f d w)) = None \<longrightarrow>
            (\<forall>r\<in>set (markers (snd (snd (snd (snd (SetFace_assign e m f d w)))))).
               ID r = ID m \<longrightarrow>
               FaceDist r = FaceDist (compute_dist e f (m\<lparr>FaceID := Face_ID f, FaceDist := d\<rparr>))))"
proof -
  let ?m2 = "compute_dist e f (m\<lparr>FaceID := Face_ID f, FaceDist := d\<rparr>)"
  have id2: "ID ?m2 = ID m"
    using Embeddings_frame[of e "m\<lparr>FaceID := Face_ID f, FaceDist := d\<rparr>"]
    by (simp add: compute_dist_def Embeddings_def split: prod.splits)
  have m3: "FaceDist m3 = FaceDist ?m2" "ID m3 = ID m" by (simp_all add: m3_def id2)
  obtain err m4 w4 where sy: "SyncSubject e False m3 w = (err, m4, w4)"
    by (cases "SyncSubject e False m3 w")
  have fr: "sync_frame m4 = sync_frame m3" using SyncSubject_frame[of e False m3 w] sy by simp
  have m4: "FaceDist m4 = FaceDist ?m2" "ID m4 = ID m"
    using sync_frame_fields(4)[OF fr] sync_frame_fields(1)[OF fr] m3 by simp_all
  have sy': "SyncSubject e False
       (if Face_SubjectUID f \<noteq> ''''
        then (compute_dist e f (m\<lparr>FaceID := Face_ID f, FaceDist := d\<rparr>))\<lparr>SubjectUID := Face_SubjectUID f\<rparr>
        else compute_dist e f (m\<lparr>FaceID := Face_ID f, FaceDist := d\<rparr>)) w = (err, m4, w4)"
    using sy by (simp add: m3_def)
  show ?thesis
  proof (cases err)
    case (Some x)
    then show ?thesis using sy' m4 by (simp add: SetFace_assign_def Let_def)
  next
    case None
    show ?thesis
      using None sy' m4
      by (auto simp: SetFace_assign_def Let_def Face_Update_eq Updates_eq assign_setface
          write_err_def written_def update_rows_def split: if_splits option.splits)
  qed
qed

lemma SetFace_reaches_assign:
  assumes "MarkerType m = MarkerFace" and "no_conflict m f" and "\<not> already_matched m f"
    and "adopts m f \<longrightarrow> StorageErr e (ops w) = None"
  shows "\<exists>f1 w1. SetFace e m (Some f) d w = SetFace_assign e m f1 d w1
           \<and> Face_ID f1 = Face_ID f \<and> Face_Embedding f1 = Face_Embedding f"
proof (cases "adopts m f")
  case True
  with assms show ?thesis
    by (auto simp: SetFace_def SetFace_update_def Face_Update_eq write_err_def
        no_conflict_def already_matched_def adopts_def)
next
  case False
  with assms show ?thesis
    by (auto simp: SetFace_def SetFace_update_def no_conflict_def already_matched_def adopts_def)
qed

text \<open>
  C5, as amended. When \<^verbatim>\<open>SetFace\<close> reaches the assignment (the marker is a face marker,
  no conflict is raised, the marker is not already matched to the face, and the write by
  which the face adopts the marker's subject, if it is made, succeeds) and the distance
  given is negative, the marker's \<^verbatim>\<open>FaceDist\<close> afterwards is the smallest Euclidean
  distance between the face's embedding and the marker's embeddings of the same length;
  embeddings of another length are skipped, and with no embedding of that length
  \<^verbatim>\<open>FaceDist\<close> is the distance given, -1. When the call returns no error, this is also the
  \<^verbatim>\<open>FaceDist\<close> of the stored rows with the marker's id.
\<close>

theorem SetFace_distance:
  assumes "MarkerType m = MarkerFace" and "no_conflict m f" and "\<not> already_matched m f"
    and "adopts m f \<longrightarrow> StorageErr e (ops w) = None" and "d < 0"
  shows "FaceDist (fst (snd (snd (SetFace e m (Some f) d w)))) =
           min_dist (Face_Embedding f) (fst (Embeddings e m)) d
       \<and> (fst (snd (SetFace e m (Some f) d w)) = None \<longrightarrow>
            (\<forall>r\<in>set (markers (snd (snd (snd (snd (SetFace e m (Some f) d w)))))).
               ID r = ID m \<longrightarrow>
               FaceDist r = min_dist (Face_Embedding f) (fst (Embeddings e m)) d))"
proof -
  obtain f1 w1 where eq: "SetFace e m (Some f) d w = SetFace_assign e m f1 d w1"
    and i: "Face_ID f1 = Face_ID f" and em: "Face_Embedding f1 = Face_Embedding f"
    using SetFace_reaches_assign[OF assms(1-4)] by blast
  have "FaceDist (compute_dist e f1 (m\<lparr>FaceID := Face_ID f1, FaceDist := d\<rparr>)) =
      min_dist (Face_Embedding f) (fst (Embeddings e m)) d"
    using compute_dist_FaceDist[OF assms(5), where e = e and f = f1 and m = m and i = "Face_ID f1"] em
    by simp
  then show ?thesis
    using SetFace_assign_result[of e m f1 d w1] eq by simp
qed

lemma min_dist_example:
  "min_dist (Face_Embedding face_bob) (fst (Embeddings env0 marker_new)) (-1) = 0"
  by (simp add: min_dist_def matching_def EuclideanDistance_def Embeddings_def ex_defs)

theorem SetFace_distance_witness:
  "MarkerType marker_new = MarkerFace \<and> no_conflict marker_new face_bob
   \<and> \<not> already_matched marker_new face_bob
   \<and> \<not> adopts marker_new face_bob \<and> (-1::real) < 0
   \<and> fst (Embeddings env0 marker_new) = [[1, 0], [5], [0, 0]]
   \<and> matching (Face_Embedding face_bob) [[1, 0], [5], [0, 0]] = [[1, 0], [0, 0]]
   \<and> FaceDist (fst (snd (snd (SetFace env0 marker_new (Some face_bob) (-1) world0)))) = 0
   \<and> min_dist [0, 0] [[5], [7, 7, 7]] (-1) = -1"
proof -
  have h1: "MarkerType marker_new = MarkerFace" by (simp add: ex_defs)
  have h2: "no_conflict marker_new face_bob" by (simp add: no_conflict_def ex_defs)
  have h3: "\<not> already_matched marker_new face_bob" by (simp add: already_matched_def ex_defs)
  have h4: "adopts marker_new face_bob \<longrightarrow> StorageErr env0 (ops world0) = None"
    by (simp add: ex_defs)
  have h5: "(-1::real) < 0" by simp
  have na: "\<not> adopts marker_new face_bob" by (simp add: adopts_def ex_defs)
  have e1: "fst (Embeddings env0 marker_new) = [[1, 0], [5], [0, 0]]"
    by (simp add: Embeddings_def ex_defs)
  have e2: "matching (Face_Embedding face_bob) [[1, 0], [5], [0, 0]] = [[1, 0], [0, 0]]"
    by (simp add: matching_def ex_defs)
  have e3: "min_dist [0, 0] [[5], [7, 7, 7]] (-1) = -1"
    by (simp add: min_dist_def matching_def)
  show ?thesis
    using SetFace_distance[OF h1 h2 h3 h4 h5] h1 h2 h3 na e1 e2 e3 min_dist_example
    by simp
qed

text \<open>
  C5 as stated fails for a marker that is already matched to the face: \<^verbatim>\<open>SetFace\<close> with
  distance -1 only refreshes the timestamp, and \<^verbatim>\<open>FaceDist\<close> stays 1/2 although the
  smallest distance is 0; without embeddings it stays 1/2 as well, not -1.
\<close>

theorem SetFace_distance_counterexample:
  "MarkerType marker_bob = MarkerFace
   \<and> FaceDist (fst (snd (snd (SetFace env0 marker_bob (Some face_bob) (-1) world0)))) = 1 / 2
   \<and> min_dist (Face_Embedding face_bob) (fst (Embeddings env0 marker_bob)) (-1) = 0
   \<and> FaceDist (fst (snd (snd (SetFace env0 (marker_bob\<lparr>EmbeddingsJSON := ''''\<rparr>)
                                   (Some face_bob) (-1) world0)))) = 1 / 2
   \<and> fst (Embeddings env0 (marker_bob\<lparr>EmbeddingsJSON := ''''\<rparr>)) = []"
  by (simp add: SetFace_def SetFace_update_def Updates_eq assign_def TimePointer_def
      update_rows_def min_dist_def matching_def EuclideanDistance_def Embeddings_def ex_defs)

section \<open>Propagation of the subject\<close>

lemma GetSubject_known:
  assumes "SubjectUID m \<noteq> ''''" and "GetSubject e m w = (so, m1, w1)"
  shows "w1 = w \<and> m1 = m\<lparr>Subject := Subject m1\<rparr>"
  using assms by (auto simp: GetSubject_def split: option.splits)

lemma sync_name_links:
  assumes "sync_name e s m w = (err, m2, w2)"
  shows "m2 = m\<lparr>Subject := Subject m2\<rparr> \<and> w2 = w\<lparr>subjects := subjects w2\<rparr>"
  using assms by (auto simp: sync_name_def split: if_splits prod.splits)

lemma sync_related_ok:
  assumes "FaceID m \<noteq> ''''" and "SubjectUID m \<noteq> ''''"
    and "sync_related e True m w = (None, m', w')"
  shows "m' = m \<and> faces w' = faces (update_known_face m w)
       \<and> markers w' = markers (update_related_markers m w)"
proof -
  from assms have ok1: "StorageErr e (ops w) = None"
    by (auto simp: sync_related_def storage_write_eq write_err_def split: option.splits)
  from assms ok1 have ok2: "StorageErr e (Suc (ops w)) = None"
    by (auto simp: sync_related_def storage_write_eq write_err_def written_def split: option.splits)
  from assms ok1 ok2 show ?thesis
    by (auto simp: sync_related_def storage_write_eq write_err_def written_def
        update_known_face_def update_related_markers_def)
qed

text \<open>
  C6, as amended. For a face marker with a face id and a subject id whose subject resolves
  (\<^verbatim>\<open>GetSubject\<close> returns one), a pass of \<^verbatim>\<open>SyncSubject\<close> with \<open>updateRelated\<close> set that
  returns no error gives the marker's subject to the face with the marker's face id if
  that face has none, and to every other stored marker with the same face id, an automatic
  subject source and another subject, whose subject source stays automatic; no other face
  or marker row changes, and the marker keeps its subject and face id.
\<close>

theorem SyncSubject_propagates:
  assumes "MarkerType m = MarkerFace" and "FaceID m \<noteq> ''''" and "SubjectUID m \<noteq> ''''"
    and "fst (GetSubject e m w) \<noteq> None"
    and "SyncSubject e True m w = (None, m', w')"
  shows "faces w' =
           map (\<lambda>f. if Face_ID f = FaceID m \<and> Face_SubjectUID f = ''''
                     then f\<lparr>Face_SubjectUID := SubjectUID m\<rparr> else f) (faces w)
       \<and> markers w' =
           map (\<lambda>r. if ID r \<noteq> ID m \<and> FaceID r = FaceID m \<and> SubjectSrc r = SrcAuto
                        \<and> SubjectUID r \<noteq> SubjectUID m
                     then r\<lparr>SubjectUID := SubjectUID m, SubjectSrc := SrcAuto\<rparr> else r)
               (markers w)
       \<and> SubjectUID m' = SubjectUID m \<and> FaceID m' = FaceID m"
proof -
  obtain so m1 w1 where g: "GetSubject e m w = (so, m1, w1)" by (cases "GetSubject e m w")
  from assms(4) g obtain subj where so: "so = Some subj" by auto
  from GetSubject_known[OF assms(3) g] have w1: "w1 = w" and m1: "m1 = m\<lparr>Subject := Subject m1\<rparr>"
    by simp_all
  obtain err m2 w2 where n: "sync_name e subj m1 w1 = (err, m2, w2)"
    by (cases "sync_name e subj m1 w1")
  from sync_name_links[OF n] have m2: "m2 = m1\<lparr>Subject := Subject m2\<rparr>"
    and w2: "w2 = w1\<lparr>subjects := subjects w2\<rparr>" by simp_all
  have l2: "FaceID m2 = FaceID m" "SubjectUID m2 = SubjectUID m" "ID m2 = ID m"
  proof -
    have "FaceID m2 = FaceID (m1\<lparr>Subject := Subject m2\<rparr>)" using m2 by simp
    also have "\<dots> = FaceID (m\<lparr>Subject := Subject m1\<rparr>)" using m1 by simp
    finally show "FaceID m2 = FaceID m" by simp
    have "SubjectUID m2 = SubjectUID (m1\<lparr>Subject := Subject m2\<rparr>)" using m2 by simp
    also have "\<dots> = SubjectUID (m\<lparr>Subject := Subject m1\<rparr>)" using m1 by simp
    finally show "SubjectUID m2 = SubjectUID m" by simp
    have "ID m2 = ID (m1\<lparr>Subject := Subject m2\<rparr>)" using m2 by simp
    also have "\<dots> = ID (m\<lparr>Subject := Subject m1\<rparr>)" using m1 by simp
    finally show "ID m2 = ID m" by simp
  qed
  have tabs: "faces w2 = faces w" "markers w2 = markers w"
  proof -
    have "faces w2 = faces (w1\<lparr>subjects := subjects w2\<rparr>)" using w2 by simp
    then show "faces w2 = faces w" using w1 by simp
    have "markers w2 = markers (w1\<lparr>subjects := subjects w2\<rparr>)" using w2 by simp
    then show "markers w2 = markers w" using w1 by simp
  qed
  have sf: "sync_face e m2 w2 = (m2, w2)" using assms(2) l2 by (simp add: sync_face_def)
  have e0: "err = None" and rel: "sync_related e True m2 w2 = (None, m', w')"
    using assms(1,5) g so n sf by (cases err; simp add: SyncSubject_def)+
  from sync_related_ok[OF _ _ rel] assms(2,3) l2
  have r: "m' = m2" "faces w' = faces (update_known_face m2 w2)"
    "markers w' = markers (update_related_markers m2 w2)" by simp_all
  show ?thesis
    using r l2 tabs by (simp add: update_known_face_def update_related_markers_def)
qed

theorem SyncSubject_propagates_witness:
  "MarkerType marker_renamed = MarkerFace \<and> FaceID marker_renamed \<noteq> ''''
   \<and> SubjectUID marker_renamed \<noteq> '''' \<and> fst (GetSubject env0 marker_renamed world0) \<noteq> None
   \<and> SyncSubject env0 True marker_renamed world0 =
        (None, marker_renamed\<lparr>Subject := Some \<lparr>Subj_UID = ''bob'', SubjectName = ''Bob''\<rparr>\<rparr>,
         world0\<lparr>markers := [marker_alice, marker_bob, marker_anon\<lparr>SubjectUID := ''bob''\<rparr>,
                              marker_new],
                faces := [face_bob, face_anon\<lparr>Face_SubjectUID := ''bob''\<rparr>], ops := 2\<rparr>)
   \<and> faces (snd (snd (SyncSubject env0 True marker_renamed world0))) =
        [face_bob, face_anon\<lparr>Face_SubjectUID := ''bob''\<rparr>]
   \<and> markers (snd (snd (SyncSubject env0 True marker_renamed world0))) =
        [marker_alice, marker_bob, marker_anon\<lparr>SubjectUID := ''bob''\<rparr>, marker_new]"
proof -
  have h1: "MarkerType marker_renamed = MarkerFace" by (simp add: marker_renamed_def ex_defs)
  have h2: "FaceID marker_renamed \<noteq> ''''" by (simp add: marker_renamed_def ex_defs)
  have h3: "SubjectUID marker_renamed \<noteq> ''''" by (simp add: marker_renamed_def ex_defs)
  have h4: "fst (GetSubject env0 marker_renamed world0) \<noteq> None"
    by (simp add: GetSubject_def marker_renamed_def ex_defs)
  have h5: "SyncSubject env0 True marker_renamed world0 =
        (None, marker_renamed\<lparr>Subject := Some \<lparr>Subj_UID = ''bob'', SubjectName = ''Bob''\<rparr>\<rparr>,
         world0\<lparr>markers := [marker_alice, marker_bob, marker_anon\<lparr>SubjectUID := ''bob''\<rparr>,
                              marker_new],
                faces := [face_bob, face_anon\<lparr>Face_SubjectUID := ''bob''\<rparr>], ops := 2\<rparr>)"
    by (simp add: SyncSubject_def GetSubject_def sync_name_def sync_face_def sync_related_def
        storage_write_def update_known_face_def update_related_markers_def marker_renamed_def
        ex_defs)
  have t: "faces (snd (snd (SyncSubject env0 True marker_renamed world0))) =
        map (\<lambda>f. if Face_ID f = FaceID marker_renamed \<and> Face_SubjectUID f = ''''
                  then f\<lparr>Face_SubjectUID := SubjectUID marker_renamed\<rparr> else f) (faces world0)
     \<and> markers (snd (snd (SyncSubject env0 True marker_renamed world0))) =
        map (\<lambda>r. if ID r \<noteq> ID marker_renamed \<and> FaceID r = FaceID marker_renamed
                     \<and> SubjectSrc r = SrcAuto \<and> SubjectUID r \<noteq> SubjectUID marker_renamed
                  then r\<lparr>SubjectUID := SubjectUID marker_renamed, SubjectSrc := SrcAuto\<rparr> else r)
            (markers world0)"
    using SyncSubject_propagates[OF h1 h2 h3 h4 h5] by (simp add: h5)
  have ev: "map (\<lambda>f. if Face_ID f = FaceID marker_renamed \<and> Face_SubjectUID f = ''''
                  then f\<lparr>Face_SubjectUID := SubjectUID marker_renamed\<rparr> else f) (faces world0)
        = [face_bob, face_anon\<lparr>Face_SubjectUID := ''bob''\<rparr>]"
    "map (\<lambda>r. if ID r \<noteq> ID marker_renamed \<and> FaceID r = FaceID marker_renamed
                     \<and> SubjectSrc r = SrcAuto \<and> SubjectUID r \<noteq> SubjectUID marker_renamed
                  then r\<lparr>SubjectUID := SubjectUID marker_renamed, SubjectSrc := SrcAuto\<rparr> else r)
            (markers world0)
        = [marker_alice, marker_bob, marker_anon\<lparr>SubjectUID := ''bob''\<rparr>, marker_new]"
    by (simp_all add: marker_renamed_def ex_defs)
  show ?thesis using h1 h2 h3 h4 h5 t ev by simp
qed

text \<open>
  C6 as stated fails: the subject of \<open>marker_alice\<close> is not in the subject store, so
  \<^verbatim>\<open>SyncSubject\<close> returns at l.240 and neither the face without subject nor the automatic
  marker of the same face is updated; and a pass without \<open>updateRelated\<close> leaves the
  other markers alone.
\<close>

theorem SyncSubject_propagates_counterexample:
  "MarkerType marker_alice = MarkerFace \<and> FaceID marker_alice \<noteq> ''''
   \<and> SubjectUID marker_alice \<noteq> ''''
   \<and> face_anon \<in> set (faces world0) \<and> Face_ID face_anon = FaceID marker_alice
   \<and> Face_SubjectUID face_anon = ''''
   \<and> marker_anon \<in> set (markers world0) \<and> ID marker_anon \<noteq> ID marker_alice
   \<and> FaceID marker_anon = FaceID marker_alice \<and> SubjectSrc marker_anon = SrcAuto
   \<and> SubjectUID marker_anon \<noteq> SubjectUID marker_alice
   \<and> SyncSubject env0 True marker_alice world0 = (None, marker_alice, world0)
   \<and> markers (snd (snd (SyncSubject env0 False marker_renamed world0))) = markers world0"
  by (simp add: SyncSubject_def GetSubject_def sync_name_def sync_face_def sync_related_def
      storage_write_def update_known_face_def update_related_markers_def marker_renamed_def
      ex_defs)

end
